theory Spec2Isabelle
  imports Complex_Main "HOL-Library.Word"
begin

unbundle bit_operations_syntax

section \<open>Scalars and vectors\<close>

text \<open>
  \<open>btScalar\<close> is idealised as a real number: the statements below are about the control
  flow and the algebra of the collision code, not about rounding. A \<open>btVector3\<close> is its
  three coordinates (the fourth, padding, coordinate is never read by this code); a
  \<open>btVector4\<close> holding a plane is the normal together with \<open>w\<close>.
  An out-of-range array read is undefined behaviour in the source; the model returns the
  fault \<open>OutOfBounds\<close> there.
\<close>

type_synonym btScalar = real
type_synonym btVector3 = "real \<times> real \<times> real"
type_synonym btVector4 = "btVector3 \<times> real"
type_synonym aabb = "btVector3 \<times> btVector3"

datatype fault = OutOfBounds | NullPointer | BadCast

definition vzero :: btVector3 where
  "vzero = (0, 0, 0)"

fun vadd :: "btVector3 \<Rightarrow> btVector3 \<Rightarrow> btVector3" where
  "vadd (a, b, c) (x, y, z) = (a + x, b + y, c + z)"

fun vsub :: "btVector3 \<Rightarrow> btVector3 \<Rightarrow> btVector3" where
  "vsub (a, b, c) (x, y, z) = (a - x, b - y, c - z)"

fun vneg :: "btVector3 \<Rightarrow> btVector3" where
  "vneg (x, y, z) = (- x, - y, - z)"

fun vmul :: "btVector3 \<Rightarrow> btVector3 \<Rightarrow> btVector3" where
  "vmul (a, b, c) (x, y, z) = (a * x, b * y, c * z)"

fun vscale :: "btScalar \<Rightarrow> btVector3 \<Rightarrow> btVector3" where
  "vscale s (x, y, z) = (s * x, s * y, s * z)"

fun vdivs :: "btVector3 \<Rightarrow> btScalar \<Rightarrow> btVector3" where
  "vdivs (x, y, z) s = (x / s, y / s, z / s)"

fun vdot :: "btVector3 \<Rightarrow> btVector3 \<Rightarrow> btScalar" where
  "vdot (a, b, c) (x, y, z) = a * x + b * y + c * z"

fun vcross :: "btVector3 \<Rightarrow> btVector3 \<Rightarrow> btVector3" where
  "vcross (a, b, c) (x, y, z) = (b * z - c * y, c * x - a * z, a * y - b * x)"

fun vtriple :: "btVector3 \<Rightarrow> btVector3 \<Rightarrow> btVector3 \<Rightarrow> btScalar" where
  "vtriple (m0, m1, m2) (a0, a1, a2) (b0, b1, b2) =
     m0 * (a1 * b2 - a2 * b1) + m1 * (a2 * b0 - a0 * b2) + m2 * (a0 * b1 - a1 * b0)"

fun vabsolute :: "btVector3 \<Rightarrow> btVector3" where
  "vabsolute (x, y, z) = (\<bar>x\<bar>, \<bar>y\<bar>, \<bar>z\<bar>)"

definition vlength2 :: "btVector3 \<Rightarrow> btScalar" where
  "vlength2 v = vdot v v"

definition vlength :: "btVector3 \<Rightarrow> btScalar" where
  "vlength v = sqrt (vlength2 v)"

definition vnormalize :: "btVector3 \<Rightarrow> btVector3" where
  "vnormalize v = vdivs v (vlength v)"

fun vmin :: "btVector3 \<Rightarrow> btVector3 \<Rightarrow> btVector3" where
  "vmin (a, b, c) (x, y, z) = (min a x, min b y, min c z)"

fun vmax :: "btVector3 \<Rightarrow> btVector3 \<Rightarrow> btVector3" where
  "vmax (a, b, c) (x, y, z) = (max a x, max b y, max c z)"

fun vcomponent :: "btVector3 \<Rightarrow> nat \<Rightarrow> btScalar" where
  "vcomponent (x, y, z) i = (if i = 0 then x else if i = 1 then y else z)"

section \<open>Utility for convexes and collideables\<close>

fun BoxInertia :: "btVector3 \<Rightarrow> btVector3" where
  "BoxInertia extents =
     (case vmul extents extents of
        (l2x, l2y, l2z) \<Rightarrow> vscale (1 / 12) (l2y + l2z, l2x + l2z, l2x + l2y))"

definition OffsetInertia :: "btVector3 \<Rightarrow> btVector3 \<Rightarrow> bool \<Rightarrow> btVector3" where
  "OffsetInertia inertia origin absolute =
     (let o2 = vlength2 origin;
          newInertia = vsub (vadd inertia (o2, o2, o2)) (vmul origin origin)
      in if absolute then vabsolute newInertia else newInertia)"

section \<open>Convex hulls\<close>

text \<open>
  The hull keeps the point array of its Bullet shape, the user index of that shape, the
  flat triangle index array (three entries per triangle), the per-triangle planes and
  materials (both empty when no triangle has a material), and the lazily computed volume
  properties; \<open>m_Volume\<close> is \<open>-1\<close> until they are computed. \<open>m_MassCenter\<close> and
  \<open>m_Inertia\<close> are not initialised by the source and are never read before
  \<open>CalculateVolumeProperties\<close> has set them; the model starts them at zero.
\<close>

record CPhysConvex_Hull =
  m_Points :: "btVector3 list"
  m_UserIndex :: int
  m_TriangleIndices :: "nat list"
  m_TrianglePlanes :: "btVector4 list"
  m_TriangleMaterials :: "nat list"
  m_Volume :: btScalar
  m_MassCenter :: btVector3
  m_Inertia :: btVector3

definition Hull_Initialize :: "btVector3 list \<Rightarrow> CPhysConvex_Hull" where
  "Hull_Initialize points =
     \<lparr> m_Points = points, m_UserIndex = 0, m_TriangleIndices = [],
       m_TrianglePlanes = [], m_TriangleMaterials = [],
       m_Volume = - 1, m_MassCenter = vzero, m_Inertia = vzero \<rparr>"

text \<open>
  The constructor from points and triangle indices: \<open>triangleCount * 3\<close> indices are
  copied from the caller's array, which holds at least that many.
\<close>

definition Hull_from_indices :: "btVector3 list \<Rightarrow> nat list \<Rightarrow> nat \<Rightarrow> CPhysConvex_Hull" where
  "Hull_from_indices points indices triangleCount =
     (Hull_Initialize points) \<lparr> m_TriangleIndices := take (triangleCount * 3) indices \<rparr>"

text \<open>\<open>points[indices[i]]\<close>, with both reads checked.\<close>

definition point_at :: "btVector3 list \<Rightarrow> nat list \<Rightarrow> nat \<Rightarrow> fault + btVector3" where
  "point_at points indices i =
     (if i < length indices \<and> indices ! i < length points
      then Inr (points ! (indices ! i)) else Inl OutOfBounds)"

definition triangle_at ::
  "btVector3 list \<Rightarrow> nat list \<Rightarrow> nat \<Rightarrow> fault + (btVector3 \<times> btVector3 \<times> btVector3)" where
  "triangle_at points indices indexIndex =
     (case point_at points indices indexIndex of Inl e \<Rightarrow> Inl e | Inr p0 \<Rightarrow>
      (case point_at points indices (indexIndex + 1) of Inl e \<Rightarrow> Inl e | Inr p1 \<Rightarrow>
       (case point_at points indices (indexIndex + 2) of Inl e \<Rightarrow> Inl e | Inr p2 \<Rightarrow>
          Inr (p0, p1, p2))))"

text \<open>The first loop of \<open>CalculateVolumeProperties\<close>: it starts at index 3.\<close>

function volume_loop ::
  "btVector3 list \<Rightarrow> nat list \<Rightarrow> btVector3 \<Rightarrow> nat \<Rightarrow> btScalar \<times> btVector3
     \<Rightarrow> fault + (btScalar \<times> btVector3)" where
  "volume_loop points indices ref indexIndex acc =
     (if indexIndex < length indices then
        (case triangle_at points indices indexIndex of
           Inl e \<Rightarrow> Inl e
         | Inr (p0, p1, p2) \<Rightarrow>
             (let tetrahedronSixVolume =
                    \<bar>vtriple (vsub p0 ref) (vsub p1 ref) (vsub p2 ref)\<bar>
              in volume_loop points indices ref (indexIndex + 3)
                   (fst acc + tetrahedronSixVolume,
                    vadd (snd acc)
                      (vscale (0.25 * tetrahedronSixVolume)
                         (vadd (vadd (vadd p0 p1) p2) ref)))))
      else Inr acc)"
  by pat_completeness auto
termination
  by (relation "measure (\<lambda>(points, indices, ref, indexIndex, acc). length indices - indexIndex)")
    auto

declare volume_loop.simps [simp del]

text \<open>The second loop: the inertia about the mass centre, over all triangles from index 0.\<close>

fun inertia_term :: "btVector3 \<Rightarrow> btVector3 \<Rightarrow> btVector3 \<Rightarrow> btVector3" where
  "inertia_term a b c =
     vscale (\<bar>vtriple a b c\<bar> * (0.1 / 6))
       (vadd (vadd (vadd (vadd (vadd (vmul a a) (vmul b b)) (vmul c c)) (vmul a b)) (vmul a c))
          (vmul b c))"

function inertia_loop ::
  "btVector3 list \<Rightarrow> nat list \<Rightarrow> btVector3 \<Rightarrow> nat \<Rightarrow> btVector3 \<Rightarrow> fault + btVector3" where
  "inertia_loop points indices massCenter indexIndex inertia =
     (if indexIndex < length indices then
        (case triangle_at points indices indexIndex of
           Inl e \<Rightarrow> Inl e
         | Inr (p0, p1, p2) \<Rightarrow>
             (case inertia_term (vsub p0 massCenter) (vsub p1 massCenter) (vsub p2 massCenter) of
                (i0, i1, i2) \<Rightarrow>
                  inertia_loop points indices massCenter (indexIndex + 3)
                    (vadd inertia (i1 + i2, i2 + i0, i0 + i1))))
      else Inr inertia)"
  by pat_completeness auto
termination
  by (relation "measure (\<lambda>(points, indices, mc, indexIndex, acc). length indices - indexIndex)")
    auto

declare inertia_loop.simps [simp del]

text \<open>
  \<open>getAabb\<close> stands for \<open>btConvexHullShape::getAabb\<close> under the identity transform, a
  function of the Bullet library (not part of these sources) of the shape's points.
  The two divisions are guarded by \<open>m_Volume > 0\<close>.
\<close>

definition CalculateVolumeProperties ::
  "(btVector3 list \<Rightarrow> aabb) \<Rightarrow> CPhysConvex_Hull \<Rightarrow> fault + CPhysConvex_Hull" where
  "CalculateVolumeProperties getAabb h =
     (if m_Volume h \<ge> 0 then Inr h
      else
        case point_at (m_Points h) (m_TriangleIndices h) 0 of
          Inl e \<Rightarrow> Inl e
        | Inr ref \<Rightarrow>
            (case volume_loop (m_Points h) (m_TriangleIndices h) ref 3 (0, vzero) of
               Inl e \<Rightarrow> Inl e
             | Inr (sixVolume, massCenterSum) \<Rightarrow>
                 (let volume = (1 / 6) * sixVolume in
                  if volume > 0 then
                    (let massCenter = vdivs massCenterSum sixVolume in
                     case inertia_loop (m_Points h) (m_TriangleIndices h) massCenter 0 vzero of
                       Inl e \<Rightarrow> Inl e
                     | Inr inertia \<Rightarrow>
                         Inr (h \<lparr> m_Volume := volume, m_MassCenter := massCenter,
                                  m_Inertia := vabsolute (vdivs inertia volume) \<rparr>))
                  else
                    (case getAabb (m_Points h) of
                       (aabbMin, aabbMax) \<Rightarrow>
                         (let massCenter = vscale 0.5 (vadd aabbMin aabbMax) in
                          Inr (h \<lparr> m_Volume := volume, m_MassCenter := massCenter,
                                   m_Inertia :=
                                     OffsetInertia (BoxInertia (vsub aabbMax aabbMin))
                                       massCenter True \<rparr>))))))"

text \<open>
  The plane of each triangle, computed once. The normal is the normalised cross product
  of the second and third vertex; \<open>w\<close> is the first vertex dotted with it. Where that
  cross product is zero the source divides by a zero length; no statement below is about
  such a plane.
\<close>

fun planes_loop :: "btVector3 list \<Rightarrow> nat list \<Rightarrow> nat list \<Rightarrow> fault + btVector4 list" where
  "planes_loop points indices [] = Inr []"
| "planes_loop points indices (triangleIndex # rest) =
     (case triangle_at points indices (triangleIndex * 3) of
        Inl e \<Rightarrow> Inl e
      | Inr (v1, p1, p2) \<Rightarrow>
          (let normal = vnormalize (vcross p1 p2) in
           case planes_loop points indices rest of
             Inl e \<Rightarrow> Inl e
           | Inr planes \<Rightarrow> Inr ((normal, vdot v1 normal) # planes)))"

definition CalculateTrianglePlanes :: "CPhysConvex_Hull \<Rightarrow> fault + CPhysConvex_Hull" where
  "CalculateTrianglePlanes h =
     (if m_TrianglePlanes h \<noteq> [] then Inr h
      else
        (let triangleCount = length (m_TriangleIndices h) div 3 in
         case planes_loop (m_Points h) (m_TriangleIndices h) [0..<triangleCount] of
           Inl e \<Rightarrow> Inl e
         | Inr planes \<Rightarrow> Inr (h \<lparr> m_TrianglePlanes := planes \<rparr>)))"

text \<open>
  The distance of a point to a plane, as \<open>GetTriangleMaterialIndex\<close> computes it
  (\<open>btVector4::dot\<close> is the three-component dot product of \<open>btVector3\<close>).
\<close>

fun plane_distance :: "btVector4 \<Rightarrow> btVector3 \<Rightarrow> btScalar" where
  "plane_distance (normal, w) point = \<bar>vdot normal point - w\<bar>"

text \<open>
  The loop of \<open>GetTriangleMaterialIndex\<close>, with the loop condition of the source,
  \<open>triangleCount < triangleIndex\<close>. The state is the closest triangle so far and its
  distance.
\<close>

function material_loop ::
  "btVector4 list \<Rightarrow> btVector3 \<Rightarrow> nat \<Rightarrow> nat \<Rightarrow> nat \<times> btScalar \<Rightarrow> fault + (nat \<times> btScalar)" where
  "material_loop planes point triangleCount triangleIndex closest =
     (if triangleCount < triangleIndex then
        (if triangleIndex < length planes then
           (let distance = plane_distance (planes ! triangleIndex) point in
            material_loop planes point triangleCount (triangleIndex + 1)
              (if distance < snd closest then (triangleIndex, distance) else closest))
         else Inl OutOfBounds)
      else Inr closest)"
  by pat_completeness auto
termination
  by (relation "measure (\<lambda>(planes, point, triangleCount, triangleIndex, closest).
        length planes - triangleIndex)") auto

declare material_loop.simps [simp del]

definition GetTriangleMaterialIndex :: "CPhysConvex_Hull \<Rightarrow> btVector3 \<Rightarrow> fault + nat" where
  "GetTriangleMaterialIndex h point =
     (let triangleCount = length (m_TriangleMaterials h) in
      if triangleCount = 0 then Inr 0
      else
        (case m_TrianglePlanes h of
           [] \<Rightarrow> Inl OutOfBounds
         | plane0 # _ \<Rightarrow>
             (case material_loop (m_TrianglePlanes h) point triangleCount 1
                     (0, plane_distance plane0 point) of
                Inl e \<Rightarrow> Inl e
              | Inr (closestTriangle, closestTriangleDistance) \<Rightarrow>
                  (if closestTriangle < length (m_TriangleMaterials h)
                   then Inr (m_TriangleMaterials h ! closestTriangle)
                   else Inl OutOfBounds))))"

section \<open>Convexes: hulls and boxes\<close>

text \<open>
  \<open>CPhysConvex\<close> is the base class with the ownership tag; its two variants are the
  hull and the box. Of its Bullet box shape the box keeps what
  \<open>getHalfExtentsWithoutMargin\<close> reports, and it keeps its origin in the compound.
  What these sources leave to their environment is a parameter, collected in the record
  \<open>bullet\<close>: the bounds of a shape under the identity transform; the half extents
  that a box shape reports, as a function of the half extents it was built from, once
  its margin has been set to \<open>VPHYSICS_CONVEX_DISTANCE_MARGIN\<close>; the constant
  \<open>BT_LARGE_FLOAT\<close>; and the content of the reference list of a new collideable,
  which no constructor of the source initialises.
\<close>

datatype Owner = OWNER_GAME | OWNER_COMPOUND | OWNER_INTERNAL

record CPhysConvex_Box =
  m_HalfExtents :: btVector3
  m_Origin :: btVector3

datatype convex_shape = Hull CPhysConvex_Hull | Box CPhysConvex_Box

record CPhysConvex =
  m_Owner :: Owner
  m_Shape :: convex_shape

record bullet =
  hull_getAabb :: "btVector3 list \<Rightarrow> aabb"
  box_getAabb :: "btVector3 \<Rightarrow> aabb"
  box_getHalfExtentsWithoutMargin :: "btVector3 \<Rightarrow> btVector3"
  recalculateLocalAabb :: "(btVector3 \<times> CPhysConvex) list \<Rightarrow> aabb"
  compound_getAabb :: "aabb \<Rightarrow> aabb"
  BT_LARGE_FLOAT :: btScalar
  uninitialised_ObjectReferenceList :: "nat option"

definition Convex_getAabb :: "bullet \<Rightarrow> CPhysConvex \<Rightarrow> aabb" where
  "Convex_getAabb bt convex =
     (case m_Shape convex of
        Hull h \<Rightarrow> hull_getAabb bt (m_Points h)
      | Box b \<Rightarrow> box_getAabb bt (m_HalfExtents b))"

text \<open>
  The getters. For a hull the first call computes the volume properties; the model
  recomputes them from the hull at each call instead of writing them back into the
  object, which gives the same values.
\<close>

definition Convex_GetVolume :: "bullet \<Rightarrow> CPhysConvex \<Rightarrow> fault + btScalar" where
  "Convex_GetVolume bt convex =
     (case m_Shape convex of
        Hull h \<Rightarrow>
          (case CalculateVolumeProperties (hull_getAabb bt) h of
             Inl e \<Rightarrow> Inl e | Inr h' \<Rightarrow> Inr (m_Volume h'))
      | Box b \<Rightarrow>
          (case m_HalfExtents b of (hx, hy, hz) \<Rightarrow> Inr (8 * hx * hy * hz)))"

definition Convex_GetMassCenter :: "bullet \<Rightarrow> CPhysConvex \<Rightarrow> fault + btVector3" where
  "Convex_GetMassCenter bt convex =
     (case m_Shape convex of
        Hull h \<Rightarrow>
          (case CalculateVolumeProperties (hull_getAabb bt) h of
             Inl e \<Rightarrow> Inl e | Inr h' \<Rightarrow> Inr (m_MassCenter h'))
      | Box b \<Rightarrow> Inr (0, 0, 0))"

definition Convex_GetInertia :: "bullet \<Rightarrow> CPhysConvex \<Rightarrow> fault + btVector3" where
  "Convex_GetInertia bt convex =
     (case m_Shape convex of
        Hull h \<Rightarrow>
          (case CalculateVolumeProperties (hull_getAabb bt) h of
             Inl e \<Rightarrow> Inl e | Inr h' \<Rightarrow> Inr (m_Inertia h'))
      | Box b \<Rightarrow> Inr (BoxInertia (vscale 2 (m_HalfExtents b))))"

definition GetOriginInCompound :: "CPhysConvex \<Rightarrow> btVector3" where
  "GetOriginInCompound convex =
     (case m_Shape convex of Hull h \<Rightarrow> (0, 0, 0) | Box b \<Rightarrow> m_Origin b)"

text \<open>
  The box constructor builds the box shape from the half extents and sets its margin;
  from then on the shape reports \<open>box_getHalfExtentsWithoutMargin\<close> of them. A new
  convex is owned by the game.
\<close>

definition CPhysConvex_Box_new :: "bullet \<Rightarrow> btVector3 \<Rightarrow> btVector3 \<Rightarrow> CPhysConvex" where
  "CPhysConvex_Box_new bt halfExtents origin =
     \<lparr> m_Owner = OWNER_GAME,
       m_Shape = Box \<lparr> m_HalfExtents = box_getHalfExtentsWithoutMargin bt halfExtents,
                       m_Origin = origin \<rparr> \<rparr>"

definition SetOwner :: "Owner \<Rightarrow> CPhysConvex \<Rightarrow> CPhysConvex" where
  "SetOwner owner convex = convex \<lparr> m_Owner := owner \<rparr>"

text \<open>
  \<open>ConvexFree\<close> acts on the store of the convexes that are alive, by address. Freeing
  through a pointer to no live object is a fault.
\<close>

definition ConvexFree ::
  "(nat \<rightharpoonup> CPhysConvex) \<Rightarrow> nat \<Rightarrow> fault + (nat \<rightharpoonup> CPhysConvex)" where
  "ConvexFree store pConvex =
     (case store pConvex of
        None \<Rightarrow> Inl NullPointer
      | Some convex \<Rightarrow>
          (if m_Owner convex = OWNER_GAME then Inr (store (pConvex := None))
           else Inr store))"

section \<open>Collideables and compound shapes\<close>

text \<open>
  The compound keeps the children of its Bullet compound shape (the origin of each child
  transform, with the convex behind the child shape's user pointer), the cached local
  bounds of that shape, and its volume, mass centre and inertia. A quotient by a zero
  volume is not a real vector (it is NaN or infinite in the source): the model stores
  \<open>NotFinite\<close> for it. No constructor of the source initialises the list of
  attached objects: a new compound has the content that the parameters give.
\<close>

datatype CollideOwner = COLLIDE_OWNER_GAME | COLLIDE_OWNER_INTERNAL

datatype 'a ieee = Finite 'a | NotFinite

record CPhysCollide_Compound =
  m_CollideOwner :: CollideOwner
  m_Children :: "(btVector3 \<times> CPhysConvex) list"
  m_LocalAabb :: aabb
  m_CompoundVolume :: btScalar
  m_CompoundMassCenter :: btVector3
  m_CompoundInertia :: "btVector3 ieee"
  m_ObjectReferenceList :: "nat option"

definition vdivs_ieee :: "btVector3 \<Rightarrow> btScalar \<Rightarrow> btVector3 ieee" where
  "vdivs_ieee v s = (if s = 0 then NotFinite else Finite (vdivs v s))"

fun vabsolute_ieee :: "btVector3 ieee \<Rightarrow> btVector3 ieee" where
  "vabsolute_ieee (Finite v) = Finite (vabsolute v)"
| "vabsolute_ieee NotFinite = NotFinite"

text \<open>The first loop of the constructor: the volume and the weighted mass centre sum.\<close>

fun compound_volume_loop ::
  "bullet \<Rightarrow> CPhysConvex list \<Rightarrow> btScalar \<times> btVector3 \<Rightarrow> fault + (btScalar \<times> btVector3)" where
  "compound_volume_loop bt [] acc = Inr acc"
| "compound_volume_loop bt (convex # rest) acc =
     (case Convex_GetVolume bt convex of
        Inl e \<Rightarrow> Inl e
      | Inr convexVolume \<Rightarrow>
          (case Convex_GetMassCenter bt convex of
             Inl e \<Rightarrow> Inl e
           | Inr massCenter \<Rightarrow>
               compound_volume_loop bt rest
                 (fst acc + convexVolume,
                  vadd (snd acc)
                    (vscale convexVolume (vadd (GetOriginInCompound convex) massCenter)))))"

text \<open>The loop of the fallback: the union of the bounds of the convexes.\<close>

fun compound_aabb_loop :: "bullet \<Rightarrow> CPhysConvex list \<Rightarrow> aabb \<Rightarrow> aabb" where
  "compound_aabb_loop bt [] acc = acc"
| "compound_aabb_loop bt (convex # rest) acc =
     (case Convex_getAabb bt convex of
        (convexAabbMin, convexAabbMax) \<Rightarrow>
          compound_aabb_loop bt rest
            (vmin (fst acc) (vadd convexAabbMin (GetOriginInCompound convex)),
             vmax (snd acc) (vadd convexAabbMax (GetOriginInCompound convex))))"

text \<open>The third loop: a convex of the game becomes a convex of the compound.\<close>

definition absorb :: "CPhysConvex \<Rightarrow> CPhysConvex" where
  "absorb convex =
     (if m_Owner convex = OWNER_GAME then SetOwner OWNER_COMPOUND convex else convex)"

definition addChildren :: "btVector3 \<Rightarrow> CPhysConvex list \<Rightarrow> (btVector3 \<times> CPhysConvex) list" where
  "addChildren massCenter pConvex =
     map (\<lambda>convex. (vsub (GetOriginInCompound convex) massCenter, absorb convex)) pConvex"

text \<open>\<open>GetVolume\<close> of a compound computes the volume when it is not known yet.\<close>

fun children_volume_loop ::
  "bullet \<Rightarrow> (btVector3 \<times> CPhysConvex) list \<Rightarrow> btScalar \<Rightarrow> fault + btScalar" where
  "children_volume_loop bt [] volume = Inr volume"
| "children_volume_loop bt (child # rest) volume =
     (case Convex_GetVolume bt (snd child) of
        Inl e \<Rightarrow> Inl e
      | Inr v \<Rightarrow> children_volume_loop bt rest (volume + v))"

definition Compound_GetVolume ::
  "bullet \<Rightarrow> CPhysCollide_Compound \<Rightarrow> fault + CPhysCollide_Compound" where
  "Compound_GetVolume bt c =
     (if m_CompoundVolume c < 0 then
        (case children_volume_loop bt (m_Children c) 0 of
           Inl e \<Rightarrow> Inl e
         | Inr volume \<Rightarrow> Inr (c \<lparr> m_CompoundVolume := volume \<rparr>))
      else Inr c)"

fun compound_inertia_loop ::
  "bullet \<Rightarrow> (btVector3 \<times> CPhysConvex) list \<Rightarrow> btVector3 \<Rightarrow> fault + btVector3" where
  "compound_inertia_loop bt [] inertia = Inr inertia"
| "compound_inertia_loop bt (child # rest) inertia =
     (case Convex_GetVolume bt (snd child) of
        Inl e \<Rightarrow> Inl e
      | Inr convexVolume \<Rightarrow>
          (case Convex_GetInertia bt (snd child) of
             Inl e \<Rightarrow> Inl e
           | Inr convexInertia \<Rightarrow>
               compound_inertia_loop bt rest
                 (vadd inertia
                    (vscale convexVolume (OffsetInertia convexInertia (fst child) False)))))"

definition CalculateInertia ::
  "bullet \<Rightarrow> CPhysCollide_Compound \<Rightarrow> fault + CPhysCollide_Compound" where
  "CalculateInertia bt c0 =
     (case Compound_GetVolume bt c0 of
        Inl e \<Rightarrow> Inl e
      | Inr c \<Rightarrow>
          (let volume = m_CompoundVolume c in
           if volume \<ge> 0 then
             (case compound_inertia_loop bt (m_Children c) vzero of
                Inl e \<Rightarrow> Inl e
              | Inr inertia \<Rightarrow>
                  Inr (c \<lparr> m_CompoundInertia := vabsolute_ieee (vdivs_ieee inertia volume) \<rparr>))
           else
             (case compound_getAabb bt (m_LocalAabb c) of
                (aabbMin, aabbMax) \<Rightarrow>
                  Inr (c \<lparr> m_CompoundInertia :=
                             Finite (OffsetInertia (BoxInertia (vsub aabbMax aabbMin))
                                       (vscale 0.5 (vadd aabbMin aabbMax)) True) \<rparr>))))"

text \<open>
  The constructor from an array of convexes. It returns the compound and the convexes of
  the array as it leaves them: their ownership tags are written in place. (The program
  also keeps in each hull the volume properties that the first query computed; a convex
  of the model stands for the object up to these cached values, which the getters give
  again at each call.) The division of the mass centre is guarded by \<open>m_Volume > 0\<close>.
\<close>

definition CPhysCollide_Compound_new ::
  "bullet \<Rightarrow> CPhysConvex list \<Rightarrow> fault + (CPhysCollide_Compound \<times> CPhysConvex list)" where
  "CPhysCollide_Compound_new bt pConvex =
     (case compound_volume_loop bt pConvex (0, vzero) of
        Inl e \<Rightarrow> Inl e
      | Inr (volume, massCenterSum) \<Rightarrow>
          (let massCenter =
                 (if volume > 0 then vdivs massCenterSum volume
                  else
                    (case compound_aabb_loop bt pConvex
                            ((BT_LARGE_FLOAT bt, BT_LARGE_FLOAT bt, BT_LARGE_FLOAT bt),
                             (- BT_LARGE_FLOAT bt, - BT_LARGE_FLOAT bt, - BT_LARGE_FLOAT bt)) of
                       (aabbMin, aabbMax) \<Rightarrow> vscale 0.5 (vadd aabbMin aabbMax)));
               children = addChildren massCenter pConvex
           in case CalculateInertia bt
                \<lparr> m_CollideOwner = COLLIDE_OWNER_GAME, m_Children = children,
                  m_LocalAabb = recalculateLocalAabb bt children,
                  m_CompoundVolume = volume, m_CompoundMassCenter = massCenter,
                  m_CompoundInertia = Finite vzero,
                  m_ObjectReferenceList = uninitialised_ObjectReferenceList bt \<rparr> of
                Inl e \<Rightarrow> Inl e
              | Inr c \<Rightarrow> Inr (c, map absorb pConvex)))"

definition ConvertConvexToCollide ::
  "bullet \<Rightarrow> CPhysConvex list \<Rightarrow> fault + ((CPhysCollide_Compound \<times> CPhysConvex list) option)" where
  "ConvertConvexToCollide bt pConvex =
     (if length pConvex = 0 then Inr None
      else
        (case CPhysCollide_Compound_new bt pConvex of
           Inl e \<Rightarrow> Inl e | Inr r \<Rightarrow> Inr (Some r)))"

section \<open>Attached objects and the change of the mass centre\<close>






section \<open>Bounding boxes and their cache\<close>

text \<open>
  The collision interface keeps the cache of box compounds as a vector of pointers; the
  model keeps the compounds it has allocated in a store by address, with the next free
  address. \<open>ConvertPositionToBullet\<close> and the threshold \<open>HL2BULLET(0.1f)\<close> come from a
  header outside these sources and are parameters. A \<open>Vector\<close> of the game is its
  three coordinates.
\<close>

type_synonym Vector = "real \<times> real \<times> real"

record CPhysicsCollision =
  m_BBoxCache :: "nat list"
  m_Compounds :: "nat \<rightharpoonup> CPhysCollide_Compound"
  m_NextAddress :: nat

definition CPhysicsCollision_new :: CPhysicsCollision where
  "CPhysicsCollision_new = \<lparr> m_BBoxCache = [], m_Compounds = Map.empty, m_NextAddress = 1 \<rparr>"

text \<open>
  The box behind the first child of a cached compound: its half extents and its origin
  in the compound.
\<close>

definition cacheBox :: "CPhysicsCollision \<Rightarrow> nat \<Rightarrow> fault + CPhysConvex_Box" where
  "cacheBox this cacheCompound =
     (case m_Compounds this cacheCompound of
        None \<Rightarrow> Inl NullPointer
      | Some c \<Rightarrow>
          (case m_Children c of
             [] \<Rightarrow> Inl OutOfBounds
           | child # _ \<Rightarrow>
               (case m_Shape (snd child) of
                  Box b \<Rightarrow> Inr b
                | Hull h \<Rightarrow> Inl BadCast)))"

text \<open>
  The loop over the three components, as the source has it. \<open>cacheCompound\<close> is the
  local pointer, \<open>None\<close> once it has been set to null. The result \<open>Some r\<close> is a
  \<open>return r\<close> of \<open>CreateBBox\<close> from inside the loop; \<open>None\<close> is the end of the
  loop, by \<open>break\<close> or after the third component.
\<close>

function component_loop ::
  "btScalar \<Rightarrow> btVector3 \<Rightarrow> btVector3 \<Rightarrow> btVector3 \<Rightarrow> btVector3 \<Rightarrow> nat option \<Rightarrow> nat
     \<Rightarrow> nat option" where
  "component_loop threshold cacheHalfExtents cacheOrigin halfExtents origin cacheCompound component =
     (if component < 3 then
        (if \<bar>vcomponent cacheHalfExtents component - vcomponent halfExtents component\<bar> > threshold \<or>
            \<bar>vcomponent cacheOrigin component - vcomponent origin component\<bar> > threshold
         then None
         else if cacheCompound \<noteq> None then cacheCompound
         else component_loop threshold cacheHalfExtents cacheOrigin halfExtents origin
                cacheCompound (component + 1))
      else None)"
  by pat_completeness auto
termination
  by (relation "measure (\<lambda>(t, ch, co, h, or, cc, component). 3 - component)") auto

declare component_loop.simps [simp del]

text \<open>The loop over the cache, from the last entry down to the first.\<close>

fun cache_loop ::
  "btScalar \<Rightarrow> CPhysicsCollision \<Rightarrow> btVector3 \<Rightarrow> btVector3 \<Rightarrow> nat \<Rightarrow> fault + nat option" where
  "cache_loop threshold this halfExtents origin 0 = Inr None"
| "cache_loop threshold this halfExtents origin (Suc bboxIndex) =
     (let cacheCompound = m_BBoxCache this ! bboxIndex in
      case cacheBox this cacheCompound of
        Inl e \<Rightarrow> Inl e
      | Inr box \<Rightarrow>
          (case component_loop threshold (m_HalfExtents box) (m_Origin box) halfExtents origin
                  (Some cacheCompound) 0 of
             Some r \<Rightarrow> Inr (Some r)
           | None \<Rightarrow> cache_loop threshold this halfExtents origin bboxIndex))"

definition CreateBBox ::
  "bullet \<Rightarrow> (Vector \<Rightarrow> btVector3) \<Rightarrow> btScalar \<Rightarrow> CPhysicsCollision \<Rightarrow> Vector \<Rightarrow> Vector
     \<Rightarrow> fault + (nat option \<times> CPhysicsCollision)" where
  "CreateBBox bt ConvertPositionToBullet threshold this mins maxs =
     (if mins = maxs then Inr (None, this)
      else
        (let bulletMins = ConvertPositionToBullet mins;
             bulletMaxs = ConvertPositionToBullet maxs;
             halfExtents = vscale 0.5 (vabsolute (vsub bulletMaxs bulletMins));
             origin = vscale 0.5 (vadd bulletMins bulletMaxs)
         in case cache_loop threshold this halfExtents origin (length (m_BBoxCache this)) of
              Inl e \<Rightarrow> Inl e
            | Inr (Some cacheCompound) \<Rightarrow> Inr (Some cacheCompound, this)
            | Inr None \<Rightarrow>
                (let box = SetOwner OWNER_INTERNAL (CPhysConvex_Box_new bt halfExtents origin)
                 in case CPhysCollide_Compound_new bt [box] of
                      Inl e \<Rightarrow> Inl e
                    | Inr (c, pConvex) \<Rightarrow>
                        (let compound = m_NextAddress this in
                         Inr (Some compound,
                              this \<lparr> m_BBoxCache := m_BBoxCache this @ [compound],
                                     m_Compounds :=
                                       (m_Compounds this)
                                         (compound \<mapsto> c \<lparr> m_CollideOwner := COLLIDE_OWNER_INTERNAL \<rparr>),
                                     m_NextAddress := m_NextAddress this + 1 \<rparr>)))))"

text \<open>The two entry points: the convex is the one behind the first child of the compound.\<close>

definition BBoxToCollide ::
  "bullet \<Rightarrow> (Vector \<Rightarrow> btVector3) \<Rightarrow> btScalar \<Rightarrow> CPhysicsCollision \<Rightarrow> Vector \<Rightarrow> Vector
     \<Rightarrow> fault + (nat option \<times> CPhysicsCollision)" where
  "BBoxToCollide bt ConvertPositionToBullet threshold this mins maxs =
     CreateBBox bt ConvertPositionToBullet threshold this mins maxs"

definition BBoxToConvex ::
  "bullet \<Rightarrow> (Vector \<Rightarrow> btVector3) \<Rightarrow> btScalar \<Rightarrow> CPhysicsCollision \<Rightarrow> Vector \<Rightarrow> Vector
     \<Rightarrow> fault + (CPhysConvex option \<times> CPhysicsCollision)" where
  "BBoxToConvex bt ConvertPositionToBullet threshold this mins maxs =
     (case CreateBBox bt ConvertPositionToBullet threshold this mins maxs of
        Inl e \<Rightarrow> Inl e
      | Inr (None, this') \<Rightarrow> Inr (None, this')
      | Inr (Some compound, this') \<Rightarrow>
          (case m_Compounds this' compound of
             None \<Rightarrow> Inl NullPointer
           | Some c \<Rightarrow>
               (case m_Children c of
                  [] \<Rightarrow> Inl OutOfBounds
                | child # _ \<Rightarrow> Inr (Some (snd child), this'))))"

section \<open>The import structures and the byte order\<close>

text \<open>
  A field of an import structure is modelled by its bytes in the order of the buffer:
  four for an \<open>int\<close>, a \<open>float\<close> or a 32-bit group of bit-fields, two for a
  \<open>short\<close>. The host reads them in little-endian order. The bit-fields of a group are
  laid out from the least significant bit in the order of their declaration. The bits of
  a \<open>float\<close> become a scalar through \<open>flt\<close>, a parameter of the decoder.
\<close>

type_synonym raw32 = "8 word \<times> 8 word \<times> 8 word \<times> 8 word"
type_synonym raw16 = "8 word \<times> 8 word"

fun value32 :: "raw32 \<Rightarrow> 32 word" where
  "value32 (b0, b1, b2, b3) =
     ucast b0 OR push_bit 8 (ucast b1) OR push_bit 16 (ucast b2) OR push_bit 24 (ucast b3)"

fun value16 :: "raw16 \<Rightarrow> 16 word" where
  "value16 (b0, b1) = ucast b0 OR push_bit 8 (ucast b1)"

fun swap32 :: "raw32 \<Rightarrow> raw32" where
  "swap32 (b0, b1, b2, b3) = (b3, b2, b1, b0)"

fun swap16 :: "raw16 \<Rightarrow> raw16" where
  "swap16 (b0, b1) = (b1, b0)"

record VCollide_IVP_U_Float_Point =
  k :: "raw32 \<times> raw32 \<times> raw32"
  hesse_val :: raw32

record VCollide_IVP_Compact_Edge =
  edge_bf :: raw32

record VCollide_IVP_Compact_Triangle =
  triangle_bf :: raw32
  c_three_edges :: "VCollide_IVP_Compact_Edge \<times> VCollide_IVP_Compact_Edge \<times> VCollide_IVP_Compact_Edge"

record VCollide_IVP_Compact_Ledge =
  c_point_offset :: raw32
  client_data :: raw32
  ledge_bf :: raw32
  n_triangles :: raw16
  for_future_use :: raw16

definition start_point_index :: "VCollide_IVP_Compact_Edge \<Rightarrow> nat" where
  "start_point_index e = unat (take_bit 16 (value32 (edge_bf e)))"

definition material_index :: "VCollide_IVP_Compact_Triangle \<Rightarrow> nat" where
  "material_index t = unat (take_bit 7 (drop_bit 24 (value32 (triangle_bf t))))"

definition size_div_16 :: "VCollide_IVP_Compact_Ledge \<Rightarrow> nat" where
  "size_div_16 l = unat (drop_bit 8 (value32 (ledge_bf l)))"

definition get_n_points :: "VCollide_IVP_Compact_Ledge \<Rightarrow> int" where
  "get_n_points l = int (size_div_16 l) - sint (value16 (n_triangles l)) - 1"

text \<open>
  Modelled from the spec: \<open>CByteswap::SwapBufferToTargetEndian\<close>, of a library header
  outside these sources. When the descriptor says that the buffer is in the foreign byte
  order, the copy has every field of the structure's byte-swap description with its bytes
  reversed; otherwise the copy is the structure as it is. The descriptions are those of
  the source: the three floats and \<open>hesse_val\<close> of a point, the 32-bit group of an
  edge, the group and the three edges of a triangle, and the five fields of a ledge (the
  union of \<open>ledgetree_node_offset\<close> and \<open>client_data\<close> as one integer).
\<close>

type_synonym CByteswap = bool

definition swap_point :: "VCollide_IVP_U_Float_Point \<Rightarrow> VCollide_IVP_U_Float_Point" where
  "swap_point p =
     (case k p of
        (k0, k1, k2) \<Rightarrow> \<lparr> k = (swap32 k0, swap32 k1, swap32 k2), hesse_val = swap32 (hesse_val p) \<rparr>)"

definition swap_edge :: "VCollide_IVP_Compact_Edge \<Rightarrow> VCollide_IVP_Compact_Edge" where
  "swap_edge e = \<lparr> edge_bf = swap32 (edge_bf e) \<rparr>"

definition swap_triangle :: "VCollide_IVP_Compact_Triangle \<Rightarrow> VCollide_IVP_Compact_Triangle" where
  "swap_triangle t =
     (case c_three_edges t of
        (e0, e1, e2) \<Rightarrow>
          \<lparr> triangle_bf = swap32 (triangle_bf t),
            c_three_edges = (swap_edge e0, swap_edge e1, swap_edge e2) \<rparr>)"

definition swap_ledge :: "VCollide_IVP_Compact_Ledge \<Rightarrow> VCollide_IVP_Compact_Ledge" where
  "swap_ledge l =
     \<lparr> c_point_offset = swap32 (c_point_offset l), client_data = swap32 (client_data l),
       ledge_bf = swap32 (ledge_bf l), n_triangles = swap16 (n_triangles l),
       for_future_use = swap16 (for_future_use l) \<rparr>"

definition SwapBufferToTargetEndian :: "CByteswap \<Rightarrow> ('a \<Rightarrow> 'a) \<Rightarrow> 'a \<Rightarrow> 'a" where
  "SwapBufferToTargetEndian byteswap swap_fields input =
     (if byteswap then swap_fields input else input)"

text \<open>
  The part of the buffer that the decoder of a ledge reads: the ledge itself, the
  triangles that follow it (\<open>ledge + 1\<close>, by index), and the points, by their byte
  offset from the ledge and their index.
\<close>

record ledge_buffer =
  buf_ledge :: VCollide_IVP_Compact_Ledge
  buf_triangles :: "nat \<Rightarrow> VCollide_IVP_Compact_Triangle"
  buf_points :: "int \<Rightarrow> nat \<Rightarrow> VCollide_IVP_U_Float_Point"

text \<open>The same logical data with every described field in the other byte order.\<close>

definition foreign_buffer :: "ledge_buffer \<Rightarrow> ledge_buffer" where
  "foreign_buffer buf =
     \<lparr> buf_ledge = swap_ledge (buf_ledge buf),
       buf_triangles = (\<lambda>i. swap_triangle (buf_triangles buf i)),
       buf_points = (\<lambda>offset i. swap_point (buf_points buf offset i)) \<rparr>"

text \<open>
  The loop of the hull constructor over the triangles. The state is the index array and
  the material array; the material array is allocated, filled with zeros, at the first
  triangle with a material.
\<close>

definition ledge_triangle_step ::
  "CByteswap \<Rightarrow> ledge_buffer \<Rightarrow> nat \<Rightarrow> nat \<Rightarrow> nat list \<times> nat list \<Rightarrow> nat list \<times> nat list" where
  "ledge_triangle_step byteswap buf triangleCount triangleIndex state =
     (let swappedTriangle =
            SwapBufferToTargetEndian byteswap swap_triangle (buf_triangles buf triangleIndex);
          indexIndex = triangleIndex * 3
      in case c_three_edges swappedTriangle of
           (e0, e1, e2) \<Rightarrow>
             (let indices =
                    (fst state)
                      [indexIndex := start_point_index e0,
                       indexIndex + 1 := start_point_index e1,
                       indexIndex + 2 := start_point_index e2];
                  materials =
                    (if material_index swappedTriangle > 0 then
                       (if length (snd state) = 0 then replicate triangleCount 0 else snd state)
                         [triangleIndex := material_index swappedTriangle]
                     else snd state)
              in (indices, materials)))"

definition CPhysConvex_Hull_from_ledge ::
  "CByteswap \<Rightarrow> ledge_buffer \<Rightarrow> btVector3 list \<Rightarrow> fault + CPhysConvex_Hull" where
  "CPhysConvex_Hull_from_ledge byteswap buf ledgePoints =
     (let userIndex = sint (value32 (client_data (buf_ledge buf)));
          swappedLedge = SwapBufferToTargetEndian byteswap swap_ledge (buf_ledge buf);
          triangleCount = nat (sint (value16 (n_triangles swappedLedge)));
          state = fold (ledge_triangle_step byteswap buf triangleCount) [0..<triangleCount]
                    (replicate (triangleCount * 3) 0, []);
          h = (Hull_Initialize ledgePoints)
                \<lparr> m_UserIndex := userIndex, m_TriangleIndices := fst state,
                  m_TriangleMaterials := snd state \<rparr>
      in if length (m_TriangleMaterials h) \<noteq> 0 then CalculateTrianglePlanes h else Inr h)"

definition decode_point :: "(32 word \<Rightarrow> btScalar) \<Rightarrow> VCollide_IVP_U_Float_Point \<Rightarrow> btVector3" where
  "decode_point flt swappedPoint =
     (case k swappedPoint of
        (k0, k1, k2) \<Rightarrow> (flt (value32 k0), - flt (value32 k1), - flt (value32 k2)))"

definition CreateFromIVPCompactLedge ::
  "(32 word \<Rightarrow> btScalar) \<Rightarrow> CByteswap \<Rightarrow> ledge_buffer \<Rightarrow> fault + CPhysConvex_Hull option" where
  "CreateFromIVPCompactLedge flt byteswap buf =
     (let swappedLedge = SwapBufferToTargetEndian byteswap swap_ledge (buf_ledge buf);
          ivpPoints = buf_points buf (sint (value32 (c_point_offset swappedLedge)));
          pointCount = get_n_points swappedLedge
      in if pointCount < 3 \<or> sint (value16 (n_triangles swappedLedge)) \<le> 0 then Inr None
         else
           (let points =
                  map (\<lambda>pointIndex.
                         decode_point flt
                           (SwapBufferToTargetEndian byteswap swap_point (ivpPoints pointIndex)))
                    [0..<nat pointCount]
            in case CPhysConvex_Hull_from_ledge byteswap buf points of
                 Inl e \<Rightarrow> Inl e
               | Inr h \<Rightarrow> Inr (Some h)))"

section \<open>Well-formed inputs and the quantities of the specification\<close>

text \<open>
  A hull is well formed when it has at least one triangle, three indices for each, and
  every index within the point array: this is what the constructors of the source
  produce from a hull computation or a well-formed ledge.
\<close>

definition hull_wf :: "CPhysConvex_Hull \<Rightarrow> bool" where
  "hull_wf h \<longleftrightarrow>
     m_TriangleIndices h \<noteq> [] \<and> length (m_TriangleIndices h) mod 3 = 0 \<and>
     list_all (\<lambda>i. i < length (m_Points h)) (m_TriangleIndices h)"

text \<open>
  The sums of the specification of the volume, over every triangle \<open>t\<close> of the hull:
  the reference point is the first vertex of the first triangle, the six-volume of a
  triangle is the absolute triple product of its three vertices relative to the
  reference, and its centroid term is a quarter of the six-volume times the sum of the
  four corners of the tetrahedron.
\<close>

definition vsum :: "btVector3 list \<Rightarrow> btVector3" where
  "vsum vs = foldr vadd vs vzero"

definition tri_point :: "btVector3 list \<Rightarrow> nat list \<Rightarrow> nat \<Rightarrow> nat \<Rightarrow> btVector3" where
  "tri_point points indices t j = points ! (indices ! (3 * t + j))"

definition tetra_six :: "btVector3 list \<Rightarrow> nat list \<Rightarrow> nat \<Rightarrow> btScalar" where
  "tetra_six points indices t =
     (let ref = tri_point points indices 0 0
      in \<bar>vtriple (vsub (tri_point points indices t 0) ref)
                  (vsub (tri_point points indices t 1) ref)
                  (vsub (tri_point points indices t 2) ref)\<bar>)"

definition tetra_centroid :: "btVector3 list \<Rightarrow> nat list \<Rightarrow> nat \<Rightarrow> btVector3" where
  "tetra_centroid points indices t =
     vscale (0.25 * tetra_six points indices t)
       (vadd (vadd (vadd (tri_point points indices t 0) (tri_point points indices t 1))
          (tri_point points indices t 2)) (tri_point points indices 0 0))"

definition six_volume_sum :: "btVector3 list \<Rightarrow> nat list \<Rightarrow> btScalar" where
  "six_volume_sum points indices =
     (\<Sum>t \<leftarrow> [0..<length indices div 3]. tetra_six points indices t)"

definition centroid_sum :: "btVector3 list \<Rightarrow> nat list \<Rightarrow> btVector3" where
  "centroid_sum points indices =
     vsum (map (tetra_centroid points indices) [0..<length indices div 3])"





text \<open>
  A convex is well formed when it is a box, or a well-formed hull, or a hull whose volume
  properties are already known; the children of a compound are well formed when each is.
\<close>

definition convex_wf :: "CPhysConvex \<Rightarrow> bool" where
  "convex_wf convex =
     (case m_Shape convex of Hull h \<Rightarrow> hull_wf h \<or> m_Volume h \<ge> 0 | Box b \<Rightarrow> True)"

definition children_wf :: "CPhysCollide_Compound \<Rightarrow> bool" where
  "children_wf c = list_all (\<lambda>child. convex_wf (snd child)) (m_Children c)"







text \<open>
  The correction of the parallel-axis theorem for an offset \<open>d\<close>, on the diagonal:
  \<open>(d\<cdot>d, d\<cdot>d, d\<cdot>d) - (d.x\<^sup>2, d.y\<^sup>2, d.z\<^sup>2)\<close>. A unit box is a box convex whose shape
  reports the half extents \<open>(1/2, 1/2, 1/2)\<close>, at an origin in the compound and with an
  ownership tag.
\<close>


definition parallel_axis_correction :: "btVector3 \<Rightarrow> btVector3" where
  "parallel_axis_correction d = vsub (vlength2 d, vlength2 d, vlength2 d) (vmul d d)"

definition unit_box :: "Owner \<Rightarrow> btVector3 \<Rightarrow> CPhysConvex" where
  "unit_box owner origin =
     \<lparr> m_Owner = owner,
       m_Shape = Box \<lparr> m_HalfExtents = (1 / 2, 1 / 2, 1 / 2), m_Origin = origin \<rparr> \<rparr>"


text \<open>
  The quantities of a ledge that the decoder works with, after the normalisation of the
  byte order: the ledge header, its triangle count and its derived point count (the size
  in 16-byte units minus the triangle count minus 1), the three point indices of a
  triangle, and the three stored coordinates of a point. A ledge is well formed when
  every point index of its triangles is below the point count. The conversion of the
  coordinate system negates the second and third coordinate.
\<close>

definition swapped_ledge :: "CByteswap \<Rightarrow> ledge_buffer \<Rightarrow> VCollide_IVP_Compact_Ledge" where
  "swapped_ledge byteswap buf = SwapBufferToTargetEndian byteswap swap_ledge (buf_ledge buf)"

definition triangle_count :: "CByteswap \<Rightarrow> ledge_buffer \<Rightarrow> int" where
  "triangle_count byteswap buf = sint (value16 (n_triangles (swapped_ledge byteswap buf)))"

definition point_count :: "CByteswap \<Rightarrow> ledge_buffer \<Rightarrow> int" where
  "point_count byteswap buf =
     int (size_div_16 (swapped_ledge byteswap buf)) - triangle_count byteswap buf - 1"

definition triangle_indices :: "CByteswap \<Rightarrow> ledge_buffer \<Rightarrow> nat \<Rightarrow> nat list" where
  "triangle_indices byteswap buf t =
     (case c_three_edges (SwapBufferToTargetEndian byteswap swap_triangle (buf_triangles buf t)) of
        (e0, e1, e2) \<Rightarrow> [start_point_index e0, start_point_index e1, start_point_index e2])"

definition ledge_wf :: "CByteswap \<Rightarrow> ledge_buffer \<Rightarrow> bool" where
  "ledge_wf byteswap buf =
     list_all (\<lambda>t. list_all (\<lambda>i. int i < point_count byteswap buf) (triangle_indices byteswap buf t))
       [0..<nat (triangle_count byteswap buf)]"

definition stored_point :: "(32 word \<Rightarrow> btScalar) \<Rightarrow> CByteswap \<Rightarrow> ledge_buffer \<Rightarrow> nat \<Rightarrow> btVector3" where
  "stored_point flt byteswap buf i =
     (case k (SwapBufferToTargetEndian byteswap swap_point
               (buf_points buf (sint (value32 (c_point_offset (swapped_ledge byteswap buf)))) i)) of
        (k0, k1, k2) \<Rightarrow> (flt (value32 k0), flt (value32 k1), flt (value32 k2)))"

fun negate_yz :: "btVector3 \<Rightarrow> btVector3" where
  "negate_yz (x, y, z) = (x, - y, - z)"

text \<open>The decoded geometry of a hull: its points, triangle indices and triangle materials.\<close>

definition hull_geometry :: "CPhysConvex_Hull \<Rightarrow> btVector3 list \<times> nat list \<times> nat list" where
  "hull_geometry h = (m_Points h, m_TriangleIndices h, m_TriangleMaterials h)"

definition decoded_geometry ::
  "fault + CPhysConvex_Hull option \<Rightarrow> fault + (btVector3 list \<times> nat list \<times> nat list) option" where
  "decoded_geometry r =
     (case r of Inl e \<Rightarrow> Inl e | Inr None \<Rightarrow> Inr None | Inr (Some h) \<Rightarrow> Inr (Some (hull_geometry h)))"

text \<open>
  The triangles whose plane is nearest to a point, by absolute distance, over all the
  triangles of the hull, and their materials.
\<close>

definition nearest_triangles :: "btVector4 list \<Rightarrow> btVector3 \<Rightarrow> nat list" where
  "nearest_triangles planes point =
     filter (\<lambda>t. list_all (\<lambda>plane. plane_distance (planes ! t) point \<le> plane_distance plane point)
                  planes)
       [0..<length planes]"

definition nearest_plane_materials :: "CPhysConvex_Hull \<Rightarrow> btVector3 \<Rightarrow> nat list" where
  "nearest_plane_materials h point =
     map (\<lambda>t. m_TriangleMaterials h ! t) (nearest_triangles (m_TrianglePlanes h) point)"

text \<open>
  The match of the specification of the cache: the half extents and the origin of a
  cached box are within the threshold of the requested ones on all three axes.
\<close>

definition boxes_agree :: "btScalar \<Rightarrow> CPhysConvex_Box \<Rightarrow> btVector3 \<Rightarrow> btVector3 \<Rightarrow> bool" where
  "boxes_agree threshold box halfExtents origin =
     list_all
       (\<lambda>axis. \<bar>vcomponent (m_HalfExtents box) axis - vcomponent halfExtents axis\<bar> \<le> threshold \<and>
               \<bar>vcomponent (m_Origin box) axis - vcomponent origin axis\<bar> \<le> threshold)
       [0, 1, 2]"

section \<open>Concrete inputs\<close>

text \<open>
  An instance of the parameters. The margin is \<open>0.00635\<close>, which is
  \<open>HL2BULLET(0.25)\<close> at the scale \<open>0.0254\<close>: a box shape reports the half extents it
  was built from less the margin on every axis. The bounds are taken without the margin
  (no statement below depends on it): those of a hull are the component-wise minimum and
  maximum of its points, those of a box are its reported half extents on both sides, and
  those of a compound are the union of the bounds of its children, each moved by the
  origin of its transform. The reference list of a new collideable is null.
\<close>

definition points_aabb :: "btVector3 list \<Rightarrow> aabb" where
  "points_aabb points =
     (case points of [] \<Rightarrow> (vzero, vzero) | p # ps \<Rightarrow> (fold vmin ps p, fold vmax ps p))"

definition example_bullet :: bullet where
  "example_bullet =
     \<lparr> hull_getAabb = points_aabb,
       box_getAabb = (\<lambda>halfExtents. (vneg halfExtents, halfExtents)),
       box_getHalfExtentsWithoutMargin =
         (\<lambda>halfExtents. vsub halfExtents (635 / 100000, 635 / 100000, 635 / 100000)),
       recalculateLocalAabb =
         (\<lambda>children.
            points_aabb
              (concat (map (\<lambda>child.
                 (case (case m_Shape (snd child) of
                          Hull h \<Rightarrow> points_aabb (m_Points h)
                        | Box b \<Rightarrow> (vneg (m_HalfExtents b), m_HalfExtents b)) of
                    (mn, mx) \<Rightarrow> [vadd mn (fst child), vadd mx (fst child)])) children))),
       compound_getAabb = (\<lambda>b. b),
       BT_LARGE_FLOAT = 10 ^ 18,
       uninitialised_ObjectReferenceList = None \<rparr>"



definition triangle_hull :: CPhysConvex_Hull where
  "triangle_hull = Hull_from_indices [(0, 0, 0), (1, 0, 0), (0, 1, 0)] [0, 1, 2] 1"



definition triangle_convex :: CPhysConvex where
  "triangle_convex = \<lparr> m_Owner = OWNER_GAME, m_Shape = Hull triangle_hull \<rparr>"

text \<open>
  The same tetrahedron as a ledge in the byte order of the host: four points at the byte
  offset 80, stored with the second and third coordinate negated, four triangles with
  the materials 1 to 4, a size of 9 units of 16 bytes and the client data 1. Of the
  bits of a float, \<open>example_flt\<close> reads those of \<open>1\<close>, \<open>-1\<close> and \<open>0\<close>.
  \<open>decoded_tetrahedron\<close> is the hull that the decoder builds from it.
\<close>

definition example_flt :: "32 word \<Rightarrow> btScalar" where
  "example_flt w = (if w = 0x3F800000 then 1 else if w = 0xBF800000 then - 1 else 0)"

definition ivp_point :: "raw32 \<Rightarrow> raw32 \<Rightarrow> raw32 \<Rightarrow> VCollide_IVP_U_Float_Point" where
  "ivp_point x y z = \<lparr> k = (x, y, z), hesse_val = (0, 0, 0, 0) \<rparr>"

definition ivp_triangle ::
  "8 word \<Rightarrow> 8 word \<Rightarrow> 8 word \<Rightarrow> 8 word \<Rightarrow> 8 word \<Rightarrow> VCollide_IVP_Compact_Triangle" where
  "ivp_triangle tri_index material p0 p1 p2 =
     \<lparr> triangle_bf = (tri_index, 0, 0, material),
       c_three_edges = (\<lparr> edge_bf = (p0, 0, 0, 0) \<rparr>, \<lparr> edge_bf = (p1, 0, 0, 0) \<rparr>,
                        \<lparr> edge_bf = (p2, 0, 0, 0) \<rparr>) \<rparr>"

definition tetrahedron_ledge :: ledge_buffer where
  "tetrahedron_ledge =
     \<lparr> buf_ledge =
         \<lparr> c_point_offset = (80, 0, 0, 0), client_data = (1, 0, 0, 0), ledge_bf = (0, 9, 0, 0),
           n_triangles = (4, 0), for_future_use = (0, 0) \<rparr>,
       buf_triangles =
         (\<lambda>i. if i = 0 then ivp_triangle 0 1 0 1 2
              else if i = 1 then ivp_triangle 1 2 0 2 3
              else if i = 2 then ivp_triangle 2 3 0 3 1
              else ivp_triangle 3 4 1 2 3),
       buf_points =
         (\<lambda>offset i.
            if offset = 80 \<and> i = 1 then ivp_point (0, 0, 0x80, 0x3F) (0, 0, 0, 0) (0, 0, 0, 0)
            else if offset = 80 \<and> i = 2 then ivp_point (0, 0, 0, 0) (0, 0, 0x80, 0xBF) (0, 0, 0, 0)
            else if offset = 80 \<and> i = 3 then ivp_point (0, 0, 0, 0) (0, 0, 0, 0) (0, 0, 0x80, 0xBF)
            else ivp_point (0, 0, 0, 0) (0, 0, 0, 0) (0, 0, 0, 0)) \<rparr>"

definition decoded_tetrahedron :: CPhysConvex_Hull where
  "decoded_tetrahedron =
     \<lparr> m_Points = [(0, 0, 0), (1, 0, 0), (0, 1, 0), (0, 0, 1)], m_UserIndex = 1,
       m_TriangleIndices = [0, 1, 2, 0, 2, 3, 0, 3, 1, 1, 2, 3],
       m_TrianglePlanes = [((0, 0, 1), 0), ((1, 0, 0), 0), ((0, 1, 0), 0), ((1, 0, 0), 1)],
       m_TriangleMaterials = [1, 2, 3, 4],
       m_Volume = - 1, m_MassCenter = vzero, m_Inertia = vzero \<rparr>"

text \<open>
  An instance of the conversion to Bullet units, a scale by \<open>0.0254\<close>, with the
  threshold \<open>0.1\<close> in the same scale; and the state of the collision interface after
  one box with the bounds \<open>(-10,-10,-10)\<close> and \<open>(10,10,10)\<close> has been created:
  the box is built from the half extents \<open>0.254\<close> and its shape reports \<open>0.24765\<close>.
\<close>

definition example_ConvertPositionToBullet :: "Vector \<Rightarrow> btVector3" where
  "example_ConvertPositionToBullet v = vscale (254 / 10000) v"

definition example_threshold :: btScalar where
  "example_threshold = (254 / 10000) * (1 / 10)"

definition cached_box_state :: CPhysicsCollision where
  "cached_box_state =
     \<lparr> m_BBoxCache = [1],
       m_Compounds =
         [1 \<mapsto> \<lparr> m_CollideOwner = COLLIDE_OWNER_INTERNAL,
                  m_Children =
                    [((0, 0, 0),
                      SetOwner OWNER_INTERNAL
                        (CPhysConvex_Box_new example_bullet
                           (254 / 1000, 254 / 1000, 254 / 1000) (0, 0, 0)))],
                  m_LocalAabb =
                    ((- (24765 / 100000), - (24765 / 100000), - (24765 / 100000)),
                     (24765 / 100000, 24765 / 100000, 24765 / 100000)),
                  m_CompoundVolume = 8 * (24765 / 100000) * (24765 / 100000) * (24765 / 100000),
                  m_CompoundMassCenter = (0, 0, 0),
                  m_CompoundInertia =
                    Finite (BoxInertia (4953 / 10000, 4953 / 10000, 4953 / 10000)),
                  m_ObjectReferenceList = None \<rparr>],
       m_NextAddress = 2 \<rparr>"

section \<open>The volume properties of a hull\<close>

lemma upt_4: "[0..<4] = [0, 1, 2, Suc 2]"
  by (simp add: numeral_eq_Suc)

lemma vadd_assoc: "vadd (vadd a b) c = vadd a (vadd b c)"
  by (cases a, cases b, cases c) simp

lemma vadd_vzero [simp]: "vadd a vzero = a" "vadd vzero a = a"
  by (cases a; simp add: vzero_def)+

lemma vsum_Cons [simp]: "vsum (v # vs) = vadd v (vsum vs)" and vsum_Nil [simp]: "vsum [] = vzero"
  by (simp_all add: vsum_def)

lemma vtriple_zero_left: "vtriple (vsub p p) a b = 0"
  by (cases p, cases a, cases b) simp

lemma tetra_six_first: "tetra_six points indices 0 = 0"
  by (simp add: tetra_six_def Let_def vtriple_zero_left)

lemma tetra_centroid_first: "tetra_centroid points indices 0 = vzero"
  by (cases "(vadd (vadd (vadd (tri_point points indices 0 0) (tri_point points indices 0 1))
          (tri_point points indices 0 2)) (tri_point points indices 0 0))")
     (simp add: tetra_centroid_def tetra_six_first vzero_def)

lemma point_at_wf:
  assumes "\<forall>i \<in> set indices. i < length points" "i < length indices"
  shows "point_at points indices i = Inr (points ! (indices ! i))"
  using assms by (simp add: point_at_def)

lemma triangle_at_wf:
  assumes "\<forall>i \<in> set indices. i < length points" "3 * t + 2 < length indices"
  shows "triangle_at points indices (3 * t) =
     Inr (tri_point points indices t 0, tri_point points indices t 1, tri_point points indices t 2)"
  using assms by (simp add: triangle_at_def point_at_wf tri_point_def)

lemma volume_loop_sum:
  assumes wf: "\<forall>i \<in> set indices. i < length points" and l: "length indices = 3 * n"
    and ref: "ref = tri_point points indices 0 0"
  shows "m \<le> n \<Longrightarrow> volume_loop points indices ref (3 * m) acc =
     Inr (fst acc + (\<Sum>t \<leftarrow> [m..<n]. tetra_six points indices t),
          vadd (snd acc) (vsum (map (tetra_centroid points indices) [m..<n])))"
proof (induction "n - m" arbitrary: m acc)
  case 0
  then have "m = n" by simp
  then show ?case using l by (subst volume_loop.simps) (cases acc, simp)
next
  case (Suc d)
  then have mn: "m < n" by simp
  then have t: "3 * m + 2 < length indices" using l by simp
  have step: "3 * m + 3 = 3 * Suc m" by simp
  have IH: "volume_loop points indices ref (3 * Suc m) acc' =
     Inr (fst acc' + (\<Sum>t \<leftarrow> [Suc m..<n]. tetra_six points indices t),
          vadd (snd acc') (vsum (map (tetra_centroid points indices) [Suc m..<n])))" for acc'
    using Suc.hyps(1) [of "Suc m" acc'] Suc.hyps(2) mn by simp
  have lt: "3 * m < length indices" using t by simp
  show ?case
    apply (subst volume_loop.simps)
    apply (simp only: lt if_True triangle_at_wf [OF wf t] sum.case prod.case Let_def step IH fst_conv snd_conv)
    apply (simp add: upt_conv_Cons [OF mn] tetra_six_def tetra_centroid_def ref Let_def vadd_assoc add.assoc)
    done
qed


lemma inertia_loop_total:
  assumes wf: "\<forall>i \<in> set indices. i < length points" and l: "length indices = 3 * n"
  shows "m \<le> n \<Longrightarrow> \<exists>r. inertia_loop points indices mc (3 * m) acc = Inr r"
proof (induction "n - m" arbitrary: m acc)
  case 0
  then have "m = n" by simp
  then show ?case using l by (subst inertia_loop.simps) (cases acc, simp)
next
  case (Suc d)
  then have mn: "m < n" by simp
  then have t: "3 * m + 2 < length indices" using l by simp
  have step: "3 * m + 3 = 3 * Suc m" by simp
  have IH: "\<exists>r. inertia_loop points indices mc (3 * Suc m) acc' = Inr r" for acc'
    using Suc.hyps(1) [of "Suc m" acc'] Suc.hyps(2) mn by simp
  have lt: "3 * m < length indices" using t by simp
  show ?case
    apply (subst inertia_loop.simps)
    apply (simp only: lt if_True triangle_at_wf [OF wf t] sum.case prod.case step)
    apply (simp only: IH split: prod.split)
    apply (simp add: IH)
    done
qed

lemma sum_list_from_one:
  "0 < n \<Longrightarrow> (\<Sum>t \<leftarrow> [0..<n]. tetra_six points indices t) = (\<Sum>t \<leftarrow> [Suc 0..<n]. tetra_six points indices t)"
  by (simp add: upt_conv_Cons tetra_six_first)

lemma vsum_from_one:
  "0 < n \<Longrightarrow> vsum (map (tetra_centroid points indices) [0..<n])
     = vsum (map (tetra_centroid points indices) [Suc 0..<n])"
  by (simp add: upt_conv_Cons tetra_centroid_first)

lemma hull_volume_loop:
  assumes "hull_wf h"
  shows "point_at (m_Points h) (m_TriangleIndices h) 0 = Inr (tri_point (m_Points h) (m_TriangleIndices h) 0 0)"
    and "volume_loop (m_Points h) (m_TriangleIndices h) (tri_point (m_Points h) (m_TriangleIndices h) 0 0) 3 (0, vzero)
      = Inr (six_volume_sum (m_Points h) (m_TriangleIndices h), centroid_sum (m_Points h) (m_TriangleIndices h))"
    and "\<exists>r. inertia_loop (m_Points h) (m_TriangleIndices h) mc 0 vzero = Inr r"
proof -
  let ?idx = "m_TriangleIndices h" and ?pts = "m_Points h"
  from assms obtain n where n: "length ?idx = 3 * n" and n0: "0 < n"
    and wf: "\<forall>i \<in> set ?idx. i < length ?pts"
    unfolding hull_wf_def list_all_iff by (cases "length ?idx = 0") (auto simp: mod_eq_0_iff_dvd)
  show "point_at ?pts ?idx 0 = Inr (tri_point ?pts ?idx 0 0)"
    using wf n n0 by (simp add: point_at_def tri_point_def)
  have "volume_loop ?pts ?idx (tri_point ?pts ?idx 0 0) (3 * 1) (0, vzero) =
     Inr (fst (0, vzero) + (\<Sum>t \<leftarrow> [1..<n]. tetra_six ?pts ?idx t),
          vadd (snd (0::real, vzero)) (vsum (map (tetra_centroid ?pts ?idx) [1..<n])))"
    using n0 by (intro volume_loop_sum [OF wf n refl]) simp
  then show "volume_loop ?pts ?idx (tri_point ?pts ?idx 0 0) 3 (0, vzero)
      = Inr (six_volume_sum ?pts ?idx, centroid_sum ?pts ?idx)"
    using n n0 by (simp add: six_volume_sum_def centroid_sum_def sum_list_from_one vsum_from_one)
  show "\<exists>r. inertia_loop ?pts ?idx mc 0 vzero = Inr r"
    using inertia_loop_total [OF wf n, of 0 mc vzero] by simp
qed




lemma triangle_hull_wf: "hull_wf triangle_hull"
  by (simp add: hull_wf_def triangle_hull_def Hull_from_indices_def Hull_Initialize_def)

lemma triangle_hull_fresh: "m_Volume triangle_hull < 0"
  by (simp add: triangle_hull_def Hull_from_indices_def Hull_Initialize_def)



section \<open>The change of the mass centre of a compound\<close>

lemma unit_box_getters [simp]:
  "Convex_GetVolume bt (unit_box owner d) = Inr 1"
  "Convex_GetMassCenter bt (unit_box owner d) = Inr (0, 0, 0)"
  "Convex_GetInertia bt (unit_box owner d) = Inr (1 / 6, 1 / 6, 1 / 6)"
  "GetOriginInCompound (unit_box owner d) = d"
  by (simp_all add: unit_box_def Convex_GetVolume_def
      Convex_GetMassCenter_def Convex_GetInertia_def GetOriginInCompound_def)




lemma CalculateVolumeProperties_total:
  assumes "hull_wf h \<or> m_Volume h \<ge> 0"
  shows "\<exists>h'. CalculateVolumeProperties getAabb h = Inr h'"
proof (cases "m_Volume h \<ge> 0")
  case True
  then show ?thesis by (simp add: CalculateVolumeProperties_def)
next
  case False
  then have wf: "hull_wf h" using assms by simp
  note loops = hull_volume_loop [OF wf]
  obtain r where r: "inertia_loop (m_Points h) (m_TriangleIndices h)
      (vdivs (centroid_sum (m_Points h) (m_TriangleIndices h))
         (six_volume_sum (m_Points h) (m_TriangleIndices h))) 0 vzero = Inr r"
    using loops(3) by blast
  show ?thesis
    using False
    by (simp add: CalculateVolumeProperties_def loops(1,2) r Let_def split: prod.split)
qed

lemma Convex_getters_total:
  assumes "convex_wf convex"
  shows "\<exists>v. Convex_GetVolume bt convex = Inr v"
    and "\<exists>v. Convex_GetMassCenter bt convex = Inr v"
    and "\<exists>v. Convex_GetInertia bt convex = Inr v"
proof -
  show "\<exists>v. Convex_GetVolume bt convex = Inr v"
  proof (cases "m_Shape convex")
    case (Hull h)
    then obtain h' where "CalculateVolumeProperties (hull_getAabb bt) h = Inr h'"
      using assms CalculateVolumeProperties_total [of h "hull_getAabb bt"]
      by (auto simp: convex_wf_def)
    then show ?thesis by (simp add: Convex_GetVolume_def Hull)
  next
    case (Box b)
    then show ?thesis by (simp add: Convex_GetVolume_def split: prod.split)
  qed
  show "\<exists>v. Convex_GetMassCenter bt convex = Inr v"
  proof (cases "m_Shape convex")
    case (Hull h)
    then obtain h' where "CalculateVolumeProperties (hull_getAabb bt) h = Inr h'"
      using assms CalculateVolumeProperties_total [of h "hull_getAabb bt"]
      by (auto simp: convex_wf_def)
    then show ?thesis by (simp add: Convex_GetMassCenter_def Hull del: split_paired_Ex)
  next
    case (Box b)
    then show ?thesis by (simp add: Convex_GetMassCenter_def del: split_paired_Ex)
  qed
  show "\<exists>v. Convex_GetInertia bt convex = Inr v"
  proof (cases "m_Shape convex")
    case (Hull h)
    then obtain h' where "CalculateVolumeProperties (hull_getAabb bt) h = Inr h'"
      using assms CalculateVolumeProperties_total [of h "hull_getAabb bt"]
      by (auto simp: convex_wf_def)
    then show ?thesis by (simp add: Convex_GetInertia_def Hull del: split_paired_Ex)
  next
    case (Box b)
    then show ?thesis by (simp add: Convex_GetInertia_def del: split_paired_Ex)
  qed
qed

lemma children_volume_loop_total:
  "list_all (\<lambda>child. convex_wf (snd child)) children \<Longrightarrow>
   \<exists>v. children_volume_loop bt children volume = Inr v"
proof (induction children arbitrary: volume)
  case Nil
  then show ?case by simp
next
  case (Cons child rest)
  then obtain v where "Convex_GetVolume bt (snd child) = Inr v"
    using Convex_getters_total(1) [of "snd child" bt] by auto
  then show ?case using Cons by simp
qed

lemma compound_inertia_loop_total:
  "list_all (\<lambda>child. convex_wf (snd child)) children \<Longrightarrow>
   \<exists>v. compound_inertia_loop bt children inertia = Inr v"
proof (induction children arbitrary: inertia)
  case Nil
  then show ?case by (simp del: split_paired_Ex)
next
  case (Cons child rest)
  then obtain v i where "Convex_GetVolume bt (snd child) = Inr v"
    "Convex_GetInertia bt (snd child) = Inr i"
    using Convex_getters_total(1,3) [of "snd child" bt] by auto
  then show ?case using Cons by (simp del: split_paired_Ex)
qed

lemma CalculateInertia_total:
  assumes "children_wf c"
  shows "\<exists>c'. CalculateInertia bt c = Inr c' \<and> m_Children c' = m_Children c \<and>
     m_LocalAabb c' = m_LocalAabb c \<and> m_CompoundMassCenter c' = m_CompoundMassCenter c \<and>
     m_ObjectReferenceList c' = m_ObjectReferenceList c \<and> m_CollideOwner c' = m_CollideOwner c"
proof -
  from assms have wf: "list_all (\<lambda>child. convex_wf (snd child)) (m_Children c)"
    by (simp add: children_wf_def)
  obtain v where v: "children_volume_loop bt (m_Children c) 0 = Inr v"
    using children_volume_loop_total [OF wf] by blast
  obtain i where i: "compound_inertia_loop bt (m_Children c) vzero = Inr i"
    using compound_inertia_loop_total [OF wf] by blast
  show ?thesis
    by (simp add: CalculateInertia_def Compound_GetVolume_def v i Let_def split: prod.split)
qed











section \<open>The compound of two unit boxes\<close>

lemma absorb_getters [simp]:
  "Convex_GetVolume bt (absorb convex) = Convex_GetVolume bt convex"
  "Convex_GetMassCenter bt (absorb convex) = Convex_GetMassCenter bt convex"
  "Convex_GetInertia bt (absorb convex) = Convex_GetInertia bt convex"
  "GetOriginInCompound (absorb convex) = GetOriginInCompound convex"
  "m_Shape (absorb convex) = m_Shape convex"
  by (simp_all add: absorb_def SetOwner_def Convex_GetVolume_def
      Convex_GetMassCenter_def Convex_GetInertia_def GetOriginInCompound_def)

text \<open>
  Claim C8. The compound built from two unit boxes at the origins \<open>d\<close> and \<open>-d\<close> has
  the total volume 2 and its mass centre at the origin; its inertia is twice the inertia
  of one box plus the parallel-axis corrections of both offsets, divided by the total
  volume, in absolute value. That is the inertia of one box plus the correction of \<open>d\<close>.
\<close>

theorem two_unit_boxes_compound:
  "\<exists>c convexes.
     CPhysCollide_Compound_new bt [unit_box owner1 d, unit_box owner2 (vneg d)] = Inr (c, convexes) \<and>
     m_CompoundVolume c = 2 \<and>
     m_CompoundMassCenter c = (0, 0, 0) \<and>
     m_CompoundInertia c =
       Finite (vabsolute (vdivs
         (vadd (vadd (vscale 2 (BoxInertia (1, 1, 1))) (parallel_axis_correction d))
            (parallel_axis_correction (vneg d))) 2)) \<and>
     m_CompoundInertia c = Finite (vadd (BoxInertia (1, 1, 1)) (parallel_axis_correction d))"
proof -
  obtain x y z where d: "d = (x, y, z)" by (cases d)
  show ?thesis
    unfolding d
    by (simp add: CPhysCollide_Compound_new_def vzero_def addChildren_def Let_def
        CalculateInertia_def Compound_GetVolume_def OffsetInertia_def vlength2_def
        vdivs_ieee_def parallel_axis_correction_def)
qed



section \<open>Boxes with equal bounds\<close>

text \<open>
  Claim C10. When \<open>mins\<close> and \<open>maxs\<close> are the same vector, \<open>CreateBBox\<close> returns
  null and leaves the cache as it is, and so do \<open>BBoxToConvex\<close> and \<open>BBoxToCollide\<close>.
\<close>

theorem equal_bounds_give_null:
  "CreateBBox bt ConvertPositionToBullet threshold this v v = Inr (None, this) \<and>
   BBoxToConvex bt ConvertPositionToBullet threshold this v v = Inr (None, this) \<and>
   BBoxToCollide bt ConvertPositionToBullet threshold this v v = Inr (None, this)"
  by (simp add: CreateBBox_def BBoxToConvex_def BBoxToCollide_def)


section \<open>The ownership tags\<close>

lemma convex_wf_absorb [simp]: "convex_wf (absorb convex) = convex_wf convex"
  by (simp add: convex_wf_def)

lemma m_Owner_absorb:
  "m_Owner (absorb convex) = (if m_Owner convex = OWNER_GAME then OWNER_COMPOUND else m_Owner convex)"
  by (simp add: absorb_def SetOwner_def)

lemma compound_volume_loop_total:
  "list_all convex_wf pConvex \<Longrightarrow> \<exists>v. compound_volume_loop bt pConvex acc = Inr v"
proof (induction pConvex arbitrary: acc)
  case Nil
  then show ?case by (simp del: split_paired_Ex)
next
  case (Cons convex rest)
  then obtain v mc where "Convex_GetVolume bt convex = Inr v"
    "Convex_GetMassCenter bt convex = Inr mc"
    using Convex_getters_total(1,2) [of convex bt] by auto
  then show ?case using Cons by (simp del: split_paired_Ex)
qed

lemma CPhysCollide_Compound_new_total:
  assumes "list_all convex_wf pConvex"
  shows "\<exists>c. CPhysCollide_Compound_new bt pConvex = Inr (c, map absorb pConvex) \<and>
     map snd (m_Children c) = map absorb pConvex"
proof -
  obtain volume massCenterSum where
    v: "compound_volume_loop bt pConvex (0, vzero) = Inr (volume, massCenterSum)"
    using compound_volume_loop_total [OF assms, of bt "(0, vzero)"] by auto
  define massCenter where "massCenter =
     (if volume > 0 then vdivs massCenterSum volume
      else
        (case compound_aabb_loop bt pConvex
                ((BT_LARGE_FLOAT bt, BT_LARGE_FLOAT bt, BT_LARGE_FLOAT bt),
                 (- BT_LARGE_FLOAT bt, - BT_LARGE_FLOAT bt, - BT_LARGE_FLOAT bt)) of
           (aabbMin, aabbMax) \<Rightarrow> vscale 0.5 (vadd aabbMin aabbMax)))"
  let ?c0 = "\<lparr> m_CollideOwner = COLLIDE_OWNER_GAME, m_Children = addChildren massCenter pConvex,
      m_LocalAabb = recalculateLocalAabb bt (addChildren massCenter pConvex),
      m_CompoundVolume = volume, m_CompoundMassCenter = massCenter,
      m_CompoundInertia = Finite vzero,
      m_ObjectReferenceList = uninitialised_ObjectReferenceList bt \<rparr>"
  have "children_wf ?c0"
    using assms by (simp add: children_wf_def addChildren_def list_all_iff)
  then obtain c where c: "CalculateInertia bt ?c0 = Inr c"
    and ch: "m_Children c = addChildren massCenter pConvex"
    using CalculateInertia_total [of ?c0 bt] by auto
  have "CPhysCollide_Compound_new bt pConvex = Inr (c, map absorb pConvex)"
    using v c by (simp add: CPhysCollide_Compound_new_def Let_def massCenter_def)
  moreover have "map snd (m_Children c) = map absorb pConvex"
    by (simp add: ch addChildren_def comp_def)
  ultimately show ?thesis by blast
qed

text \<open>
  Claim C9. \<open>ConvexFree\<close> removes a live convex from the store exactly when its tag is
  \<open>OWNER_GAME\<close>, and leaves the store as it is for the other two tags. The constructor
  of a compound from well-formed convexes returns; it keeps every convex as it is, but
  for the tag, which becomes \<open>OWNER_COMPOUND\<close> when it was \<open>OWNER_GAME\<close> and is
  unchanged otherwise. So neither operation changes a tag that is not \<open>OWNER_GAME\<close>.
\<close>

theorem ownership_tags:
  assumes "store pConvex = Some convex" and "list_all convex_wf pConvexes"
  shows "ConvexFree store pConvex =
      Inr (if m_Owner convex = OWNER_GAME then store (pConvex := None) else store) \<and>
    (\<exists>c pConvexes'.
       CPhysCollide_Compound_new bt pConvexes = Inr (c, pConvexes') \<and>
       map snd (m_Children c) = pConvexes' \<and>
       list_all2
         (\<lambda>old new. m_Shape new = m_Shape old \<and>
            m_Owner new = (if m_Owner old = OWNER_GAME then OWNER_COMPOUND else m_Owner old))
         pConvexes pConvexes')"
proof -
  have "ConvexFree store pConvex =
      Inr (if m_Owner convex = OWNER_GAME then store (pConvex := None) else store)"
    using assms(1) by (simp add: ConvexFree_def)
  moreover obtain c where "CPhysCollide_Compound_new bt pConvexes = Inr (c, map absorb pConvexes)"
    "map snd (m_Children c) = map absorb pConvexes"
    using CPhysCollide_Compound_new_total [OF assms(2), of bt] by blast
  moreover have "list_all2
         (\<lambda>old new. m_Shape new = m_Shape old \<and>
            m_Owner new = (if m_Owner old = OWNER_GAME then OWNER_COMPOUND else m_Owner old))
         pConvexes (map absorb pConvexes)"
    by (simp add: list_all2_map2 list.rel_refl m_Owner_absorb absorb_getters(5))
  ultimately show ?thesis by blast
qed


theorem ownership_tags_witness:
  "[1 \<mapsto> unit_box OWNER_COMPOUND (0, 0, 0)] 1 = Some (unit_box OWNER_COMPOUND (0, 0, 0)) \<and>
   list_all convex_wf [unit_box OWNER_GAME (1, 0, 0), unit_box OWNER_INTERNAL (- 1, 0, 0)] \<and>
   ConvexFree [1 \<mapsto> unit_box OWNER_COMPOUND (0, 0, 0)] 1 =
     Inr [1 \<mapsto> unit_box OWNER_COMPOUND (0, 0, 0)] \<and>
   (\<exists>c pConvexes'.
      CPhysCollide_Compound_new example_bullet
        [unit_box OWNER_GAME (1, 0, 0), unit_box OWNER_INTERNAL (- 1, 0, 0)] = Inr (c, pConvexes') \<and>
      map snd (m_Children c) = pConvexes' \<and>
      map m_Owner pConvexes' = [OWNER_COMPOUND, OWNER_INTERNAL])"
proof -
  have s: "[1 \<mapsto> unit_box OWNER_COMPOUND (0, 0, 0)] (1::nat) = Some (unit_box OWNER_COMPOUND (0, 0, 0))"
    by simp
  have w: "list_all convex_wf [unit_box OWNER_GAME (1, 0, 0), unit_box OWNER_INTERNAL (- 1, 0, 0)]"
    by (simp add: convex_wf_def unit_box_def)
  have o: "m_Owner (unit_box owner d) = owner" for owner d
    by (simp add: unit_box_def)
  show ?thesis
    using ownership_tags [where store = "[1 \<mapsto> unit_box OWNER_COMPOUND (0, 0, 0)]"
        and pConvex = 1 and bt = example_bullet, OF s w] s w
    by (auto simp: o list_all2_Cons1)
qed

section \<open>The decoder of a ledge\<close>

lemma fold_invariant:
  assumes "P s" and "\<And>x s. x \<in> set xs \<Longrightarrow> P s \<Longrightarrow> P (f x s)"
  shows "P (fold f xs s)"
  using assms by (induction xs arbitrary: s) auto

lemma set_update3:
  assumes "\<forall>x \<in> set xs. x < (p::nat)" "a < p" "b < p" "c < p"
  shows "\<forall>x \<in> set (xs[i := a, j := b, l := c]). x < p"
proof
  fix x assume "x \<in> set (xs[i := a, j := b, l := c])"
  then have "x \<in> insert c (insert b (insert a (set xs)))"
    using set_update_subset_insert [of "xs[i := a, j := b]" l c]
      set_update_subset_insert [of "xs[i := a]" j b]
      set_update_subset_insert [of xs i a] by blast
  then show "x < p" using assms by auto
qed

lemma ledge_triangle_step_indices:
  assumes "list_all (\<lambda>i. i < p) (triangle_indices byteswap buf t)"
    and "\<forall>x \<in> set (fst state). x < p" and "length (fst state) = len"
  shows "(\<forall>x \<in> set (fst (ledge_triangle_step byteswap buf n t state)). x < p) \<and>
     length (fst (ledge_triangle_step byteswap buf n t state)) = len"
proof -
  obtain e0 e1 e2 where e: "c_three_edges (SwapBufferToTargetEndian byteswap swap_triangle
      (buf_triangles buf t)) = (e0, e1, e2)"
    by (cases "c_three_edges (SwapBufferToTargetEndian byteswap swap_triangle
      (buf_triangles buf t))")
  have f: "fst (ledge_triangle_step byteswap buf n t state) =
      (fst state) [t * 3 := start_point_index e0, t * 3 + 1 := start_point_index e1,
                   t * 3 + 2 := start_point_index e2]"
    by (simp add: ledge_triangle_step_def Let_def e)
  have lt: "start_point_index e0 < p" "start_point_index e1 < p" "start_point_index e2 < p"
    using assms(1) by (simp_all add: triangle_indices_def e)
  have "\<forall>x \<in> set (fst (ledge_triangle_step byteswap buf n t state)). x < p"
    unfolding f by (rule set_update3 [OF assms(2) lt])
  moreover have "length (fst (ledge_triangle_step byteswap buf n t state)) = len"
    unfolding f using assms(3) by simp
  ultimately show ?thesis ..
qed

lemma ledge_indices_in_range:
  assumes "\<forall>t \<in> set ts. list_all (\<lambda>i. i < p) (triangle_indices byteswap buf t)"
    and "0 < p"
  shows "(\<forall>x \<in> set (fst (fold (ledge_triangle_step byteswap buf n) ts (replicate len 0, []))). x < p) \<and>
     length (fst (fold (ledge_triangle_step byteswap buf n) ts (replicate len 0, []))) = len"
proof (rule fold_invariant [where P = "\<lambda>s. (\<forall>x \<in> set (fst s). x < p) \<and> length (fst s) = len"])
  show "(\<forall>x \<in> set (fst (replicate len (0::nat), []::nat list)). x < p) \<and>
     length (fst (replicate len (0::nat), []::nat list)) = len"
    using assms(2) by simp
next
  fix t and s :: "nat list \<times> nat list"
  assume "t \<in> set ts" and "(\<forall>x \<in> set (fst s). x < p) \<and> length (fst s) = len"
  then show "(\<forall>x \<in> set (fst (ledge_triangle_step byteswap buf n t s)). x < p) \<and>
     length (fst (ledge_triangle_step byteswap buf n t s)) = len"
    using ledge_triangle_step_indices [of p byteswap buf t s len n] assms(1) by blast
qed

lemma triangle_at_in_range:
  assumes "\<forall>i \<in> set indices. i < length points" "t * 3 + 2 < length indices"
  shows "\<exists>r. triangle_at points indices (t * 3) = Inr r"
  using assms by (simp add: triangle_at_def point_at_def del: split_paired_Ex)

lemma planes_loop_total:
  assumes "\<forall>i \<in> set indices. i < length points"
  shows "\<forall>t \<in> set ts. t * 3 + 2 < length indices \<Longrightarrow>
     \<exists>planes. planes_loop points indices ts = Inr planes"
proof (induction ts)
  case Nil
  then show ?case by simp
next
  case (Cons t ts)
  have t: "t * 3 + 2 < length indices" using Cons.prems by simp
  from triangle_at_in_range [OF assms t] obtain r
    where r: "triangle_at points indices (t * 3) = Inr r" by blast
  obtain v1 p1 p2 where rr: "r = (v1, p1, p2)" by (cases r)
  have "\<forall>t \<in> set ts. t * 3 + 2 < length indices" using Cons.prems by simp
  from Cons.IH [OF this] obtain planes where p: "planes_loop points indices ts = Inr planes"
    by blast
  show ?case
    by (simp add: r rr p Let_def)
qed

lemma CalculateTrianglePlanes_total:
  assumes "\<forall>i \<in> set (m_TriangleIndices h). i < length (m_Points h)"
    and "length (m_TriangleIndices h) = 3 * n"
  shows "\<exists>planes. CalculateTrianglePlanes h = Inr (h \<lparr> m_TrianglePlanes := planes \<rparr>)"
proof (cases "m_TrianglePlanes h = []")
  case False
  have "CalculateTrianglePlanes h = Inr (h \<lparr> m_TrianglePlanes := m_TrianglePlanes h \<rparr>)"
    using False by (simp add: CalculateTrianglePlanes_def)
  then show ?thesis ..
next
  case True
  have "\<forall>t \<in> set [0..<n]. t * 3 + 2 < length (m_TriangleIndices h)"
    using assms(2) by simp
  from planes_loop_total [OF assms(1) this] obtain planes where
    "planes_loop (m_Points h) (m_TriangleIndices h) [0..<n] = Inr planes"
    by blast
  then have "CalculateTrianglePlanes h = Inr (h \<lparr> m_TrianglePlanes := planes \<rparr>)"
    using True assms(2) by (simp add: CalculateTrianglePlanes_def Let_def)
  then show ?thesis ..
qed

lemma tetrahedron_ledge_counts:
  "triangle_count False tetrahedron_ledge = 4" "point_count False tetrahedron_ledge = 4"
  by (simp_all add: triangle_count_def point_count_def swapped_ledge_def
      SwapBufferToTargetEndian_def tetrahedron_ledge_def size_div_16_def)

lemma Hull_from_ledge_total:
  assumes wf: "ledge_wf byteswap buf"
    and len: "int (length points) = point_count byteswap buf"
    and pc: "0 < point_count byteswap buf"
  shows "\<exists>h. CPhysConvex_Hull_from_ledge byteswap buf points = Inr h \<and> m_Points h = points \<and>
     m_UserIndex h = sint (value32 (client_data (buf_ledge buf)))"
proof -
  let ?n = "nat (triangle_count byteswap buf)"
  let ?st = "fold (ledge_triangle_step byteswap buf ?n) [0..<?n] (replicate (?n * 3) 0, [])"
  let ?h = "(Hull_Initialize points)
      \<lparr> m_UserIndex := sint (value32 (client_data (buf_ledge buf))),
        m_TriangleIndices := fst ?st, m_TriangleMaterials := snd ?st \<rparr>"
  have eq: "CPhysConvex_Hull_from_ledge byteswap buf points =
      (if length (m_TriangleMaterials ?h) \<noteq> 0 then CalculateTrianglePlanes ?h else Inr ?h)"
    by (simp add: CPhysConvex_Hull_from_ledge_def Let_def triangle_count_def swapped_ledge_def)
  have "\<forall>t \<in> set [0..<?n]. list_all (\<lambda>i. i < length points) (triangle_indices byteswap buf t)"
    using wf len [symmetric] by (simp add: ledge_wf_def list_all_iff)
  moreover have "0 < length points" using len pc by (cases points) simp_all
  ultimately have r: "(\<forall>x \<in> set (fst ?st). x < length points) \<and> length (fst ?st) = ?n * 3"
    by (rule ledge_indices_in_range)
  have "\<exists>planes. CalculateTrianglePlanes ?h = Inr (?h \<lparr> m_TrianglePlanes := planes \<rparr>)"
    by (rule CalculateTrianglePlanes_total [where n = ?n])
       (use r in \<open>simp_all add: Hull_Initialize_def\<close>)
  then obtain planes where p: "CalculateTrianglePlanes ?h = Inr (?h \<lparr> m_TrianglePlanes := planes \<rparr>)"
    by blast
  show ?thesis
  proof (cases "length (m_TriangleMaterials ?h) \<noteq> 0")
    case True
    then have "CPhysConvex_Hull_from_ledge byteswap buf points = Inr (?h \<lparr> m_TrianglePlanes := planes \<rparr>)"
      using eq p by simp
    then show ?thesis by (simp add: Hull_Initialize_def)
  next
    case False
    then have "CPhysConvex_Hull_from_ledge byteswap buf points = Inr ?h"
      using eq by simp
    then show ?thesis by (simp add: Hull_Initialize_def)
  qed
qed

lemma decoded_point_eq:
  "decode_point flt (SwapBufferToTargetEndian byteswap swap_point
       (buf_points buf (sint (value32 (c_point_offset (swapped_ledge byteswap buf)))) i)) =
     negate_yz (stored_point flt byteswap buf i)"
  by (simp add: decode_point_def stored_point_def split: prod.split)

lemma CreateFromIVPCompactLedge_null:
  "CreateFromIVPCompactLedge flt byteswap buf = Inr None \<longleftrightarrow>
     point_count byteswap buf < 3 \<or> triangle_count byteswap buf \<le> 0"
  by (simp add: CreateFromIVPCompactLedge_def Let_def point_count_def triangle_count_def
      swapped_ledge_def get_n_points_def split: sum.split)

lemma CreateFromIVPCompactLedge_hull:
  assumes wf: "ledge_wf byteswap buf"
    and c: "\<not> (point_count byteswap buf < 3 \<or> triangle_count byteswap buf \<le> 0)"
  shows "\<exists>h. CreateFromIVPCompactLedge flt byteswap buf = Inr (Some h) \<and>
     CPhysConvex_Hull_from_ledge byteswap buf
       (map (\<lambda>i. negate_yz (stored_point flt byteswap buf i))
          [0..<nat (point_count byteswap buf)]) = Inr h \<and>
     m_Points h =
       map (\<lambda>i. negate_yz (stored_point flt byteswap buf i))
         [0..<nat (point_count byteswap buf)] \<and>
     m_UserIndex h = sint (value32 (client_data (buf_ledge buf)))"
proof -
  let ?points = "map (\<lambda>i. negate_yz (stored_point flt byteswap buf i))
             [0..<nat (point_count byteswap buf)]"
  have "int (length ?points) = point_count byteswap buf" "0 < point_count byteswap buf"
    using c by simp_all
  from Hull_from_ledge_total [OF wf this] obtain h where
    h: "CPhysConvex_Hull_from_ledge byteswap buf ?points = Inr h" "m_Points h = ?points"
      "m_UserIndex h = sint (value32 (client_data (buf_ledge buf)))"
    by blast
  have "CreateFromIVPCompactLedge flt byteswap buf = Inr (Some h)"
    using c h(1)
    by (simp add: CreateFromIVPCompactLedge_def Let_def decoded_point_eq [unfolded swapped_ledge_def]
        point_count_def triangle_count_def swapped_ledge_def get_n_points_def)
  then show ?thesis
    using h by blast
qed

text \<open>
  Claim C7. Decoding a ledge returns null exactly when the derived point count is less
  than 3 or the triangle count is zero or negative. In every other case, for a
  well-formed ledge, it returns a hull, and the points of the hull are the stored points
  in their order, each with its second and third coordinate negated.
\<close>

theorem decode_ledge:
  "(CreateFromIVPCompactLedge flt byteswap buf = Inr None \<longleftrightarrow>
      point_count byteswap buf < 3 \<or> triangle_count byteswap buf \<le> 0) \<and>
   (ledge_wf byteswap buf \<longrightarrow>
    \<not> (point_count byteswap buf < 3 \<or> triangle_count byteswap buf \<le> 0) \<longrightarrow>
      (\<exists>h. CreateFromIVPCompactLedge flt byteswap buf = Inr (Some h) \<and>
         m_Points h =
           map (\<lambda>i. negate_yz (stored_point flt byteswap buf i))
             [0..<nat (point_count byteswap buf)]))"
  using CreateFromIVPCompactLedge_null [of flt byteswap buf]
    CreateFromIVPCompactLedge_hull [of byteswap buf flt]
  by blast

lemma tetrahedron_ledge_indices:
  "triangle_indices False tetrahedron_ledge t =
     (if t = 0 then [0, 1, 2] else if t = 1 then [0, 2, 3] else if t = 2 then [0, 3, 1]
      else [1, 2, 3])"
  by (simp add: triangle_indices_def SwapBufferToTargetEndian_def tetrahedron_ledge_def
      ivp_triangle_def start_point_index_def)

lemma tetrahedron_ledge_stored:
  "stored_point example_flt False tetrahedron_ledge i =
     (if i = 1 then (1, 0, 0) else if i = 2 then (0, - 1, 0) else if i = 3 then (0, 0, - 1)
      else (0, 0, 0))"
  by (simp add: stored_point_def swapped_ledge_def SwapBufferToTargetEndian_def
      tetrahedron_ledge_def ivp_point_def example_flt_def)

lemma tetrahedron_ledge_wf: "ledge_wf False tetrahedron_ledge"
  by (simp add: ledge_wf_def tetrahedron_ledge_counts tetrahedron_ledge_indices upt_4)

lemma tetrahedron_ledge_points:
  "map (\<lambda>i. negate_yz (stored_point example_flt False tetrahedron_ledge i)) [0..<4] =
     [(0, 0, 0), (1, 0, 0), (0, 1, 0), (0, 0, 1)]"
  by (simp add: tetrahedron_ledge_stored upt_4)

theorem decode_ledge_witness:
  "ledge_wf False tetrahedron_ledge \<and>
   \<not> (point_count False tetrahedron_ledge < 3 \<or> triangle_count False tetrahedron_ledge \<le> 0) \<and>
   CreateFromIVPCompactLedge example_flt False tetrahedron_ledge \<noteq> Inr None \<and>
   (\<exists>h. CreateFromIVPCompactLedge example_flt False tetrahedron_ledge = Inr (Some h) \<and>
      m_Points h = [(0, 0, 0), (1, 0, 0), (0, 1, 0), (0, 0, 1)])"
  using decode_ledge [of example_flt False tetrahedron_ledge] tetrahedron_ledge_wf
  by (simp add: tetrahedron_ledge_counts tetrahedron_ledge_points)

section \<open>Decoding in the foreign byte order\<close>

text \<open>
  Decoding the foreign representation of a buffer with the swapping descriptor gives the
  hull that decoding the buffer itself gives, but for the user index: the constructor
  reads \<open>client_data\<close> from the ledge in the buffer, before the swapped copy is made.
\<close>

lemma swap_involutions [simp]:
  "swap32 (swap32 a) = a" "swap16 (swap16 b) = b"
  "swap_point (swap_point p) = p" "swap_edge (swap_edge e) = e"
  "swap_triangle (swap_triangle t) = t" "swap_ledge (swap_ledge l) = l"
proof -
  show a: "swap32 (swap32 a) = a" for a by (cases a) simp
  show b: "swap16 (swap16 b) = b" for b by (cases b) simp
  show "swap_point (swap_point p) = p"
    by (cases "k p") (simp add: swap_point_def a)
  show e: "swap_edge (swap_edge e) = e" for e by (simp add: swap_edge_def a)
  show "swap_triangle (swap_triangle t) = t"
    by (cases "c_three_edges t") (simp add: swap_triangle_def a e)
  show "swap_ledge (swap_ledge l) = l" by (simp add: swap_ledge_def a b)
qed

lemma foreign_reads [simp]:
  "SwapBufferToTargetEndian True swap_ledge (buf_ledge (foreign_buffer buf)) = buf_ledge buf"
  "SwapBufferToTargetEndian True swap_triangle (buf_triangles (foreign_buffer buf) t) =
     buf_triangles buf t"
  "SwapBufferToTargetEndian True swap_point (buf_points (foreign_buffer buf) offset i) =
     buf_points buf offset i"
  "SwapBufferToTargetEndian False f x = x"
  by (simp_all add: SwapBufferToTargetEndian_def foreign_buffer_def)

lemma foreign_triangle_step:
  "ledge_triangle_step True (foreign_buffer buf) n t state = ledge_triangle_step False buf n t state"
  by (simp add: ledge_triangle_step_def)

lemma foreign_hull:
  "CPhysConvex_Hull_from_ledge True (foreign_buffer buf) points =
     map_sum id (\<lambda>h. h \<lparr> m_UserIndex := sint (value32 (swap32 (client_data (buf_ledge buf)))) \<rparr>)
       (CPhysConvex_Hull_from_ledge False buf points)"
proof -
  have s: "ledge_triangle_step True (foreign_buffer buf) n = ledge_triangle_step False buf n" for n
    by (intro ext) (rule foreign_triangle_step)
  have c: "client_data (buf_ledge (foreign_buffer buf)) = swap32 (client_data (buf_ledge buf))"
    by (simp add: foreign_buffer_def swap_ledge_def)
  let ?n = "nat (sint (value16 (n_triangles (buf_ledge buf))))"
  let ?st = "fold (ledge_triangle_step False buf ?n) [0..<?n] (replicate (?n * 3) 0, [])"
  let ?h = "\<lambda>u. (Hull_Initialize points)
      \<lparr> m_UserIndex := u, m_TriangleIndices := fst ?st, m_TriangleMaterials := snd ?st \<rparr>"
  have n: "CPhysConvex_Hull_from_ledge False buf points =
      (if length (snd ?st) \<noteq> 0 then CalculateTrianglePlanes (?h (sint (value32 (client_data (buf_ledge buf)))))
       else Inr (?h (sint (value32 (client_data (buf_ledge buf))))))"
    by (simp add: CPhysConvex_Hull_from_ledge_def Let_def)
  have f: "CPhysConvex_Hull_from_ledge True (foreign_buffer buf) points =
      (if length (snd ?st) \<noteq> 0
       then CalculateTrianglePlanes (?h (sint (value32 (swap32 (client_data (buf_ledge buf))))))
       else Inr (?h (sint (value32 (swap32 (client_data (buf_ledge buf)))))))"
    by (simp add: CPhysConvex_Hull_from_ledge_def Let_def s c)
  show ?thesis
    unfolding n f
    by (simp add: CalculateTrianglePlanes_def Let_def Hull_Initialize_def split: sum.split)
qed

lemma foreign_decode:
  "CreateFromIVPCompactLedge flt True (foreign_buffer buf) =
     map_sum id (map_option
        (\<lambda>h. h \<lparr> m_UserIndex := sint (value32 (swap32 (client_data (buf_ledge buf)))) \<rparr>))
       (CreateFromIVPCompactLedge flt False buf)"
  by (simp add: CreateFromIVPCompactLedge_def Let_def foreign_hull split: sum.split)

lemma foreign_decode_geometry:
  "decoded_geometry (CreateFromIVPCompactLedge flt True (foreign_buffer buf)) =
   decoded_geometry (CreateFromIVPCompactLedge flt False buf)"
  by (simp add: foreign_decode decoded_geometry_def hull_geometry_def
      split: sum.split option.split)

lemma tetrahedron_ledge_fold:
  "fold (ledge_triangle_step False tetrahedron_ledge 4) [0..<4] (replicate (4 * 3) 0, []) =
    ([0, 1, 2, 0, 2, 3, 0, 3, 1, 1, 2, 3], [1, 2, 3, 4])"
  by code_simp

lemma tetrahedron_ledge_hull:
  "CPhysConvex_Hull_from_ledge False tetrahedron_ledge [(0, 0, 0), (1, 0, 0), (0, 1, 0), (0, 0, 1)] =
     Inr decoded_tetrahedron"
proof -
  have n: "nat (sint (value16 (n_triangles (buf_ledge tetrahedron_ledge)))) = 4"
    by (simp add: tetrahedron_ledge_def)
  have c: "sint (value32 (client_data (buf_ledge tetrahedron_ledge))) = 1"
    by (simp add: tetrahedron_ledge_def)
  show ?thesis
    apply (simp only: CPhysConvex_Hull_from_ledge_def Let_def n c tetrahedron_ledge_fold
        SwapBufferToTargetEndian_def if_False fst_conv snd_conv)
    apply (simp add: CalculateTrianglePlanes_def Hull_Initialize_def Let_def upt_4
        triangle_at_def point_at_def vnormalize_def vlength_def vlength2_def
        decoded_tetrahedron_def)
    done
qed

lemma tetrahedron_ledge_decoded:
  "CreateFromIVPCompactLedge example_flt False tetrahedron_ledge = Inr (Some decoded_tetrahedron)"
  using CreateFromIVPCompactLedge_hull [of False tetrahedron_ledge example_flt]
    tetrahedron_ledge_wf
  by (auto simp: tetrahedron_ledge_counts tetrahedron_ledge_points tetrahedron_ledge_hull)

text \<open>
  Claim C5, at the tetrahedron ledge: both decodings return a hull with the same points,
  triangle indices and materials, but the client data 1 of the ledge becomes the user
  index 1 in the native decoding and 16777216, its bytes reversed, in the foreign one:
  this multi-byte field is read without being normalised.
\<close>

theorem foreign_user_index_not_swapped:
  "\<exists>h h'. CreateFromIVPCompactLedge example_flt False tetrahedron_ledge = Inr (Some h) \<and>
     CreateFromIVPCompactLedge example_flt True (foreign_buffer tetrahedron_ledge) = Inr (Some h') \<and>
     hull_geometry h' = hull_geometry h \<and>
     value32 (client_data (buf_ledge tetrahedron_ledge)) = 1 \<and>
     m_UserIndex h = 1 \<and> m_UserIndex h' = 16777216"
proof -
  have c: "sint (value32 (swap32 (client_data (buf_ledge tetrahedron_ledge)))) = 16777216"
    "value32 (client_data (buf_ledge tetrahedron_ledge)) = 1"
    by (simp_all add: tetrahedron_ledge_def)
  have "CreateFromIVPCompactLedge example_flt True (foreign_buffer tetrahedron_ledge) =
      Inr (Some (decoded_tetrahedron \<lparr> m_UserIndex := 16777216 \<rparr>))"
    by (simp add: foreign_decode tetrahedron_ledge_decoded c)
  moreover have "m_UserIndex decoded_tetrahedron = 1"
    by (simp add: decoded_tetrahedron_def)
  ultimately show ?thesis
    using tetrahedron_ledge_decoded c(2) by (simp add: hull_geometry_def)
qed

section \<open>The material of a triangle\<close>

text \<open>
  The loop over the triangles starts at 1 and runs while the triangle count is less than
  the index, so with at least one triangle it does not run: the result is the material
  of the first triangle.
\<close>

lemma material_loop_never_runs:
  "0 < triangleCount \<Longrightarrow> material_loop planes point triangleCount (Suc 0) closest = Inr closest"
  by (subst material_loop.simps) simp

lemma GetTriangleMaterialIndex_first:
  assumes "m_TriangleMaterials h \<noteq> []" and "m_TrianglePlanes h \<noteq> []"
  shows "GetTriangleMaterialIndex h point = Inr (m_TriangleMaterials h ! 0)"
proof -
  obtain plane0 rest where p: "m_TrianglePlanes h = plane0 # rest"
    using assms(2) by (cases "m_TrianglePlanes h") auto
  have l: "0 < length (m_TriangleMaterials h)" using assms(1) by simp
  show ?thesis
    using l by (simp add: GetTriangleMaterialIndex_def Let_def p material_loop_never_runs)
qed

text \<open>
  Claim C2, at the decoded tetrahedron and the point \<open>(1/4, 0, 1/4)\<close> on its third
  face: the nearest plane is that of triangle 2 alone, whose material is 3, and
  \<open>GetTriangleMaterialIndex\<close> returns 1, the material of triangle 0.
\<close>

theorem material_of_first_triangle_only:
  "CreateFromIVPCompactLedge example_flt False tetrahedron_ledge = Inr (Some decoded_tetrahedron) \<and>
   GetTriangleMaterialIndex decoded_tetrahedron (1 / 4, 0, 1 / 4) = Inr 1 \<and>
   nearest_triangles (m_TrianglePlanes decoded_tetrahedron) (1 / 4, 0, 1 / 4) = [2] \<and>
   nearest_plane_materials decoded_tetrahedron (1 / 4, 0, 1 / 4) = [3]"
proof -
  have "GetTriangleMaterialIndex decoded_tetrahedron (1 / 4, 0, 1 / 4) = Inr 1"
    by (subst GetTriangleMaterialIndex_first) (simp_all add: decoded_tetrahedron_def)
  moreover have n: "nearest_triangles (m_TrianglePlanes decoded_tetrahedron) (1 / 4, 0, 1 / 4) = [2]"
    by (simp add: nearest_triangles_def decoded_tetrahedron_def upt_4)
  moreover have "nearest_plane_materials decoded_tetrahedron (1 / 4, 0, 1 / 4) = [3]"
    unfolding nearest_plane_materials_def n by (simp add: decoded_tetrahedron_def)
  ultimately show ?thesis
    using tetrahedron_ledge_decoded by simp
qed

section \<open>The cache of boxes\<close>

text \<open>
  The return from the loop over the components is inside the loop, after the test of
  the component: an entry is returned as soon as the first component is within the
  threshold.
\<close>

lemma component_loop_first_axis:
  "component_loop threshold cacheHalfExtents cacheOrigin halfExtents origin (Some cacheCompound) 0 =
     (if \<bar>vcomponent cacheHalfExtents 0 - vcomponent halfExtents 0\<bar> > threshold \<or>
         \<bar>vcomponent cacheOrigin 0 - vcomponent origin 0\<bar> > threshold
      then None else Some cacheCompound)"
  by (subst component_loop.simps) simp

lemma CreateBBox_first_axis_hit:
  assumes "mins \<noteq> maxs" and "m_BBoxCache this = cache @ [cacheCompound]"
    and "cacheBox this cacheCompound = Inr box"
    and "\<bar>vcomponent (m_HalfExtents box) 0 -
          vcomponent (vscale 0.5 (vabsolute (vsub (ConvertPositionToBullet maxs)
                                                  (ConvertPositionToBullet mins)))) 0\<bar> \<le> threshold"
    and "\<bar>vcomponent (m_Origin box) 0 -
          vcomponent (vscale 0.5 (vadd (ConvertPositionToBullet mins)
                                       (ConvertPositionToBullet maxs))) 0\<bar> \<le> threshold"
  shows "CreateBBox bt ConvertPositionToBullet threshold this mins maxs =
     Inr (Some cacheCompound, this)"
  using assms
  by (simp add: CreateBBox_def Let_def component_loop_first_axis)

lemma first_box_created:
  "CreateBBox example_bullet example_ConvertPositionToBullet example_threshold
     CPhysicsCollision_new (- 10, - 10, - 10) (10, 10, 10) = Inr (Some 1, cached_box_state)"
  by (simp add: CreateBBox_def CPhysicsCollision_new_def example_ConvertPositionToBullet_def
      Let_def SetOwner_def CPhysConvex_Box_new_def CPhysCollide_Compound_new_def
      Convex_GetVolume_def Convex_GetMassCenter_def Convex_GetInertia_def GetOriginInCompound_def
      vzero_def addChildren_def absorb_def CalculateInertia_def Compound_GetVolume_def
      OffsetInertia_def vlength2_def vdivs_ieee_def example_bullet_def points_aabb_def
      cached_box_state_def)

text \<open>
  Claim C1, with a box shape that reports its half extents less the margin. The first
  request, for the bounds \<open>(-10,-10,-10)\<close> and \<open>(10,10,10)\<close>, puts in the cache a box
  whose shape reports the half extents \<open>0.24765\<close> on every axis. The second request, for
  the bounds \<open>(-9.75,-50,-10)\<close> and \<open>(9.75,50,10)\<close>, that is the half extents
  \<open>(0.24765, 1.27, 0.254)\<close> at the same origin, returns the cached compound and
  allocates nothing, although the two boxes do not agree within the threshold
  \<open>0.00254\<close> on the second and third axis.
\<close>

theorem cache_checks_first_axis_only:
  "CreateBBox example_bullet example_ConvertPositionToBullet example_threshold
     CPhysicsCollision_new (- 10, - 10, - 10) (10, 10, 10) = Inr (Some 1, cached_box_state) \<and>
   CreateBBox example_bullet example_ConvertPositionToBullet example_threshold
     cached_box_state (- (39 / 4), - 50, - 10) (39 / 4, 50, 10) = Inr (Some 1, cached_box_state) \<and>
   cacheBox cached_box_state 1 =
     Inr \<lparr> m_HalfExtents = (24765 / 100000, 24765 / 100000, 24765 / 100000),
           m_Origin = (0, 0, 0) \<rparr> \<and>
   vscale 0.5 (vabsolute (vsub (example_ConvertPositionToBullet (39 / 4, 50, 10))
                               (example_ConvertPositionToBullet (- (39 / 4), - 50, - 10)))) =
     (24765 / 100000, 127 / 100, 254 / 1000) \<and>
   \<not> boxes_agree example_threshold
       \<lparr> m_HalfExtents = (24765 / 100000, 24765 / 100000, 24765 / 100000),
         m_Origin = (0, 0, 0) \<rparr>
       (24765 / 100000, 127 / 100, 254 / 1000) (0, 0, 0)"
proof -
  have b: "cacheBox cached_box_state 1 =
     Inr \<lparr> m_HalfExtents = (24765 / 100000, 24765 / 100000, 24765 / 100000),
           m_Origin = (0, 0, 0) \<rparr>"
    by (simp add: cacheBox_def cached_box_state_def SetOwner_def CPhysConvex_Box_new_def
        example_bullet_def)
  have l: "m_BBoxCache cached_box_state = [] @ [1]"
    by (simp add: cached_box_state_def)
  have "CreateBBox example_bullet example_ConvertPositionToBullet example_threshold
     cached_box_state (- (39 / 4), - 50, - 10) (39 / 4, 50, 10) = Inr (Some 1, cached_box_state)"
    by (rule CreateBBox_first_axis_hit [OF _ l b])
       (simp_all add: example_ConvertPositionToBullet_def example_threshold_def)
  moreover have "\<not> boxes_agree example_threshold
       \<lparr> m_HalfExtents = (24765 / 100000, 24765 / 100000, 24765 / 100000),
         m_Origin = (0, 0, 0) \<rparr>
       (24765 / 100000, 127 / 100, 254 / 1000) (0, 0, 0)"
    by (simp add: boxes_agree_def example_threshold_def)
  moreover have "vscale 0.5 (vabsolute (vsub (example_ConvertPositionToBullet (39 / 4, 50, 10))
                               (example_ConvertPositionToBullet (- (39 / 4), - 50, - 10)))) =
     (24765 / 100000, 127 / 100, 254 / 1000)"
    by (simp add: example_ConvertPositionToBullet_def)
  ultimately show ?thesis
    using first_box_created b by simp
qed

section \<open>The inertia of a compound of zero volume\<close>

text \<open>
  \<open>CalculateInertia\<close> takes the branch of the division whenever the volume is not
  negative: with the volume zero the quotient is not finite, and the bounds of the shape
  are not used.
\<close>

lemma CalculateInertia_zero_volume:
  assumes "children_wf c" and "m_CompoundVolume c = 0"
  shows "\<exists>c'. CalculateInertia bt c = Inr c' \<and> m_CompoundInertia c' = NotFinite"
proof -
  from assms(1) have wf: "list_all (\<lambda>child. convex_wf (snd child)) (m_Children c)"
    by (simp add: children_wf_def)
  obtain i where i: "compound_inertia_loop bt (m_Children c) vzero = Inr i"
    using compound_inertia_loop_total [OF wf] by blast
  show ?thesis
    using assms(2) by (simp add: CalculateInertia_def Compound_GetVolume_def i vdivs_ieee_def)
qed

lemma volume_loop_single_triangle:
  "length indices \<le> 3 \<Longrightarrow> volume_loop points indices ref 3 acc = Inr acc"
  by (subst volume_loop.simps) simp

lemma triangle_hull_properties:
  "CalculateVolumeProperties points_aabb triangle_hull =
     Inr (triangle_hull \<lparr> m_Volume := 0, m_MassCenter := (1 / 2, 1 / 2, 0),
                          m_Inertia := (1 / 3, 1 / 3, 2 / 3) \<rparr>)"
  by (simp add: CalculateVolumeProperties_def triangle_hull_def Hull_from_indices_def
        Hull_Initialize_def point_at_def volume_loop_single_triangle points_aabb_def
        OffsetInertia_def vlength2_def)

text \<open>
  Claim C3, at the compound built from one hull that is a single triangle: the total
  volume is zero, and the inertia that the constructor leaves is the quotient by that
  zero volume, not the box approximation.
\<close>

theorem zero_volume_compound_divides:
  "\<exists>c convexes.
     CPhysCollide_Compound_new example_bullet [triangle_convex] = Inr (c, convexes) \<and>
     m_CompoundVolume c = 0 \<and> m_CompoundInertia c = NotFinite"
proof -
  have g: "Convex_GetVolume example_bullet triangle_convex = Inr 0"
    "Convex_GetMassCenter example_bullet triangle_convex = Inr (1 / 2, 1 / 2, 0)"
    "Convex_GetInertia example_bullet triangle_convex = Inr (1 / 3, 1 / 3, 2 / 3)"
    by (simp_all add: Convex_GetVolume_def Convex_GetMassCenter_def Convex_GetInertia_def
        triangle_convex_def example_bullet_def triangle_hull_properties)
  show ?thesis
    by (simp add: CPhysCollide_Compound_new_def g Let_def vzero_def addChildren_def
        CalculateInertia_def Compound_GetVolume_def vdivs_ieee_def split: prod.split)
qed

end
